theory Spec2Isabelle
  imports Main "HOL-Library.Word"
begin

section \<open>Go values used by the HTTP client\<close>

text \<open>
  A Go \<open>string\<close> and a Go \<open>[]byte\<close> are both sequences of bytes, and the conversions
  \<open>[]byte(s)\<close> and \<open>string(b)\<close> copy the bytes unchanged. Both are modelled as lists of
  \<open>char\<close> (a \<open>char\<close> is one byte), so the conversions are the identity.
\<close>

type_synonym bytes = string

type_synonym UUID = "128 word"

text \<open>A call either panics (the run-time aborts it) or returns its results.\<close>

datatype panic = IndexOutOfRange | NilPointerDereference | TypeAssertionFailed

datatype 'a go = Panic panic | Returns 'a

subsection \<open>The functions of package \<open>strings\<close> that the client calls\<close>

text \<open>
  \<open>strings.Split(s, sep)\<close> for a non-empty separator: the pieces of \<open>s\<close> between the
  non-overlapping occurrences of \<open>sep\<close>, scanned from the left. Every separator in this
  program is a non-empty constant (\<open>","\<close>, \<open>":"\<close> and the two characters \<open>\n\<close>).
\<close>

function split_scan :: "string \<Rightarrow> string \<Rightarrow> string \<Rightarrow> string list" where
  "split_scan sep cur [] = [cur]"
| "split_scan sep cur (c # cs) =
     (if sep \<noteq> [] \<and> take (length sep) (c # cs) = sep
      then cur # split_scan sep [] (drop (length sep) (c # cs))
      else split_scan sep (cur @ [c]) cs)"
  by pat_completeness auto
termination
  by (relation "measure (\<lambda>(sep, cur, s). length s)") auto

definition Split :: "string \<Rightarrow> string \<Rightarrow> string list" where
  "Split s sep = split_scan sep [] s"

fun Join :: "string list \<Rightarrow> string \<Rightarrow> string" where
  "Join [] sep = []"
| "Join [x] sep = x"
| "Join (x # y # ys) sep = x @ sep @ Join (y # ys) sep"

definition ReplaceAll :: "string \<Rightarrow> string \<Rightarrow> string \<Rightarrow> string" where
  \<comment> \<open>for a non-empty \<open>old\<close>, as in \<open>strings.ReplaceAll(value, " ", "")\<close>\<close>
  "ReplaceAll s old new = Join (Split s old) new"

definition TrimPrefix :: "string \<Rightarrow> string \<Rightarrow> string" where
  "TrimPrefix s p = (if take (length p) s = p then drop (length p) s else s)"

definition TrimSuffix :: "string \<Rightarrow> string \<Rightarrow> string" where
  "TrimSuffix s p =
     (if length p \<le> length s \<and> drop (length s - length p) s = p
      then take (length s - length p) s else s)"

definition Trim :: "string \<Rightarrow> string \<Rightarrow> string" where
  \<comment> \<open>\<open>strings.Trim\<close> with a cutset of one-byte characters\<close>
  "Trim s cutset =
     rev (dropWhile (\<lambda>c. c \<in> set cutset) (rev (dropWhile (\<lambda>c. c \<in> set cutset) s)))"

definition Contains :: "string \<Rightarrow> string \<Rightarrow> bool" where
  "Contains s sub = list_ex (\<lambda>i. take (length sub) (drop i s) = sub) [0..<Suc (length s)]"

subsection \<open>The configuration of a client\<close>

record Config =
  AgentID :: UUID
  Protocol :: string
  Host :: string
  Headers :: string
  URL :: "string list"
  Proxy :: string
  UserAgent :: string
  Parrot :: string
  PSK :: string
  JA3 :: string
  Padding :: string
  AuthPackage :: string
  Opaque :: bytes
  Transformers :: string

subsection \<open>Messages (package \<open>merlin-message\<close>)\<close>

text \<open>
  The message types and the OPAQUE sub-types are integer enumerations of the external
  message package. The source names \<open>messages.OPAQUE\<close> and six OPAQUE sub-types and
  compares a message type with \<open>0\<close>, the zero value of the enumeration; the other members
  are kept as numbered alternatives.
\<close>

datatype MsgType = UNDEFINED | OPAQUE | OtherMsgType nat

datatype OpaqueType =
  OpaqueUndefined | RegInit | RegComplete | AuthInit | AuthComplete | ReRegister | ReAuthenticate

record Opaque =
  Type :: OpaqueType
  Payload :: bytes

text \<open>The payload of a message is an \<open>interface{}\<close>: nil, an OPAQUE structure, or another value.\<close>

datatype payload = NilPayload | OpaquePayload Opaque | OtherPayload bytes

record Base =
  ID :: UUID
  Type :: MsgType
  Payload :: payload
  Padding :: string
  Token :: string

definition Base_zero :: Base where
  \<comment> \<open>\<open>messages.Base{}\<close>\<close>
  "Base_zero = \<lparr>ID = 0, Type = UNDEFINED, Payload = NilPayload, Padding = [], Token = []\<rparr>"

definition Opaque_zero :: Opaque where
  \<comment> \<open>\<open>opaque.Opaque{}\<close>\<close>
  "Opaque_zero = \<lparr>Opaque.Type = OpaqueUndefined, Opaque.Payload = []\<rparr>"

definition strip_padding :: "Base \<Rightarrow> Base" where
  "strip_padding m = m\<lparr>Padding := []\<rparr>"

subsection \<open>Transforms\<close>

text \<open>The ten stages that \<open>New\<close> can build from the \<open>Transformers\<close> string.\<close>

datatype Transformer =
  AES | Base64_BYTE | Base64_STRING | Gob_BASE | Gob_STRING
  | Hex_BYTE | Hex_STRING | JWE | RC4 | XOR

text \<open>
  The argument that the client hands to a stage's \<open>Construct\<close> (a message on the first
  call, bytes afterwards), and the dynamic type of what a stage's \<open>Deconstruct\<close> returns.
\<close>

datatype stage_arg = FromBase Base | FromBytes bytes

datatype stage_ret = RetBytes bytes | RetString string | RetBase Base | RetOther

subsection \<open>Errors\<close>

text \<open>One alternative for each place where the source builds or passes on an error.\<close>

datatype error =
    ErrNoAuthenticator
  | ErrUnhandledTransform string
  | ErrPaddingAtoi string
  | ErrProxyParse string
  | ErrUTLS string
  | ErrInvalidProtocol string
  | ErrJWTEncryptor string
  | ErrJWTSigner string
  | ErrJWTSerialize string
  | ErrJWTParse string
  | ErrListenUnsupported
  | ErrSendConstruct error
  | ErrSendBuildRequest string
  | ErrSendPost string
  | ErrServerStatus int
  | ErrNoContentType
  | ErrNotOctetStream
  | ErrNoData
  | ErrReadBody string
  | ErrSendDeconstruct error
  | ErrSetURLParse string string
  | ErrAtoi string
  | ErrUnknownSetting string
  | ErrConstruct string
  | ErrStage string
  | ErrDeconstructUnhandledType
  | ErrDeconstructNoBase
  | ErrAuthenticator string
  | ErrOpaqueRegInit error
  | ErrOpaqueIDMismatch UUID UUID
  | ErrOpaqueNotOpaqueType MsgType
  | ErrOpaqueRegComplete error
  | ErrOpaqueNotAuthenticated
  | ErrOpaqueMarshalAgentID string
  | ErrOpaqueMarshal string
  | ErrOpaqueUnexpectedType OpaqueType OpaqueType
  | ErrOpaqueUnmarshal string
  | ErrOpaqueAuthInit string
  | ErrOpaqueAuthComplete string

subsection \<open>The OPAQUE authenticator's state and the client\<close>

text \<open>
  The handles of the OPAQUE library (registration, key exchange, ...) are opaque to the
  agent; they are modelled by their serialised form. A nil pointer is \<open>None\<close>.
\<close>

record User =
  reg :: bytes
  regComplete :: "bytes option"
  auth :: "bytes option"
  Kex :: "bytes option"
  pwdU :: bytes

record OpaqueAuthenticator =
  agent :: UUID
  registered :: bool
  authenticated :: bool
  opaque :: "User option"

text \<open>
  The \<open>Authenticator\<close> interface has two implementations. Package \<open>authenticators/none\<close>
  is not among the sources; its value carries the agent's identifier it was built from.
\<close>

datatype Authenticator = NoneAuth UUID | OpaqueAuth OpaqueAuthenticator

datatype ProxyFunc = ProxyURL string | ProxyFromEnvironment

datatype RoundTripper =
    UTLS_JA3 string "ProxyFunc option"
  | UTLS_Parrot string "ProxyFunc option"
  | HTTP3_Transport
  | H2_Transport
  | H2C_Transport
  | HTTPS_Transport ProxyFunc
  | HTTP_Transport ProxyFunc

record Client =
  Authenticator :: "Authenticator option"
  authenticated :: bool
  httpClient :: "RoundTripper option"
  Protocol :: string
  URL :: "string list"
  Host :: string
  Proxy :: string
  JWT :: string
  Headers :: "string \<rightharpoonup> string"
  secret :: bytes
  UserAgent :: string
  PaddingMax :: int
  Parrot :: string
  JA3 :: string
  psk :: string
  AgentID :: UUID
  currentURL :: int
  transformers :: "Transformer list"

subsection \<open>What the client calls outside these sources\<close>

text \<open>
  The standard library, the JOSE library and the packages of the agent that are not among
  the sources (the transform stages, the uTLS transports, the \<open>none\<close> authenticator) are
  parameters of the model. A library error is the text of its message. \<open>strconv.Atoi\<close>
  returns a number and an error; the number is also there when the error is not nil (0 on a
  syntax error, the nearest bound on a range error).
\<close>

record gopaque =
  uuid_MarshalBinary :: "UUID \<Rightarrow> string + bytes"
  pbkdf2_Key :: "bytes \<Rightarrow> bytes \<Rightarrow> nat \<Rightarrow> nat \<Rightarrow> bytes"
  NewUserRegister :: "bytes \<Rightarrow> bytes"
  UserRegister_Init :: "bytes \<Rightarrow> bytes \<Rightarrow> bytes \<times> bytes"
  UserRegisterInit_ToBytes :: "bytes \<Rightarrow> string + bytes"
  ServerRegisterInit_FromBytes :: "bytes \<Rightarrow> string + bytes"
  UserRegister_Complete :: "bytes \<Rightarrow> bytes \<Rightarrow> bytes"
  UserRegisterComplete_ToBytes :: "bytes \<Rightarrow> string + bytes"
  NewKeyExchangeSigma :: "bytes"
  NewUserAuth :: "bytes \<Rightarrow> bytes \<Rightarrow> bytes"
  UserAuth_Init :: "bytes \<Rightarrow> bytes \<Rightarrow> string + (bytes \<times> bytes)"
  UserAuthInit_ToBytes :: "bytes \<Rightarrow> string + bytes"
  ServerAuthComplete_FromBytes :: "bytes \<Rightarrow> string + bytes"
  UserAuth_Complete :: "bytes \<Rightarrow> bytes \<Rightarrow> string + (bytes \<times> bytes \<times> bytes)"
  UserAuthComplete_ToBytes :: "bytes \<Rightarrow> string + bytes"
  SharedSecret_String :: "bytes \<Rightarrow> string"

record env =
  sha256_Sum256 :: "bytes \<Rightarrow> bytes"
  strings_ToLower :: "string \<Rightarrow> string"
  strconv_Atoi :: "string \<Rightarrow> int \<times> string option"
  url_Parse :: "string \<Rightarrow> string option"
  http_NewRequest :: "string \<Rightarrow> string option"
  stage_Construct :: "Transformer \<Rightarrow> stage_arg \<Rightarrow> bytes \<Rightarrow> string + bytes"
  stage_Deconstruct :: "Transformer \<Rightarrow> bytes \<Rightarrow> bytes \<Rightarrow> string + stage_ret"
  utls_NewTransportFromJA3Insecure :: "string \<Rightarrow> string option"
  utls_NewTransportFromParrotInsecure :: "string \<Rightarrow> string option"
  jose_NewEncrypter :: "bytes \<Rightarrow> string option"
  jose_NewSigner :: "bytes \<Rightarrow> string option"
  jwt_CompactSerialize :: "bytes \<Rightarrow> UUID \<Rightarrow> int \<Rightarrow> string + string"
  jwt_ParseSignedAndEncrypted :: "string \<Rightarrow> string option"
  none_Authenticate :: "UUID \<Rightarrow> Base \<Rightarrow> Base \<times> bool \<times> string option"
  none_Secret :: "UUID \<Rightarrow> string + bytes"
  none_String :: "string"
  lib_gopaque :: gopaque

text \<open>
  What one call of \<open>Send\<close> (and the authenticator step before it) finds in the world:
  the raw values behind the two \<open>rand.Intn\<close> draws, the random string generator of
  package \<open>core\<close>, the answer of the round-tripper to a request, and the clock.
\<close>

record request =
  req_Method :: string
  req_URL :: string
  req_Body :: bytes
  req_UserAgent :: string
  req_ContentType :: string
  req_Authorization :: string
  req_Host :: string
  req_Headers :: "string \<rightharpoonup> string"

record response =
  StatusCode :: int
  ContentType :: string
  ContentLength :: int
  Body :: "string + bytes"

record world =
  rand_padding :: nat
  rand_url :: nat
  RandStringBytesMaskImprSrc :: "nat \<Rightarrow> string"
  Do :: "RoundTripper \<Rightarrow> request \<Rightarrow> string + response"
  now :: int

definition Intn :: "nat \<Rightarrow> int \<Rightarrow> int" where
  \<comment> \<open>\<open>rand.Intn(n)\<close> for \<open>n > 0\<close>: the raw draw brought into \<open>[0, n)\<close>\<close>
  "Intn raw n = int raw mod n"

section \<open>The transform pipeline: \<open>Client.Construct\<close> and \<open>Client.Deconstruct\<close>\<close>

text \<open>
  \<open>Construct\<close> runs the stages from the last one to the first. The loop counts \<open>i\<close> down
  from the number of stages; the first call (\<open>i\<close> equal to that number) hands the message
  to the stage, every later call hands it the bytes of the previous call.
\<close>

primrec Construct_loop :: "env \<Rightarrow> Client \<Rightarrow> Base \<Rightarrow> nat \<Rightarrow> bytes \<Rightarrow> error + bytes" where
  "Construct_loop e c msg 0 data = Inr data"
| "Construct_loop e c msg (Suc j) data =
     (case (if Suc j = length (transformers c)
            then stage_Construct e (transformers c ! j) (FromBase msg) (secret c)
            else stage_Construct e (transformers c ! j) (FromBytes data) (secret c)) of
        Inl err \<Rightarrow> Inl (ErrConstruct err)
      | Inr data' \<Rightarrow> Construct_loop e c msg j data')"

definition Construct :: "env \<Rightarrow> Client \<Rightarrow> Base \<Rightarrow> error + bytes" where
  "Construct e c msg = Construct_loop e c msg (length (transformers c)) []"

text \<open>
  One stage of \<open>Deconstruct\<close>: the stage is tried with the client's secret; when that fails
  it is tried again with SHA-256 of the PSK, and when that works the client is marked
  unauthenticated and takes that key as its secret.
\<close>

definition Deconstruct_stage ::
  "env \<Rightarrow> Transformer \<Rightarrow> Client \<Rightarrow> bytes \<Rightarrow> string + (Client \<times> stage_ret)" where
  "Deconstruct_stage e transform c data =
     (case stage_Deconstruct e transform data (secret c) of
        Inr ret \<Rightarrow> Inr (c, ret)
      | Inl _ \<Rightarrow>
          (let k = sha256_Sum256 e (psk c) in
           case stage_Deconstruct e transform data k of
             Inl err \<Rightarrow> Inl err
           | Inr ret \<Rightarrow> Inr (c\<lparr>authenticated := False, secret := k\<rparr>, ret)))"

fun Deconstruct_loop ::
  "env \<Rightarrow> Transformer list \<Rightarrow> Client \<Rightarrow> bytes \<Rightarrow> Client \<times> (error + Base)" where
  "Deconstruct_loop e [] c data = (c, Inl ErrDeconstructNoBase)"
| "Deconstruct_loop e (transform # rest) c data =
     (case Deconstruct_stage e transform c data of
        Inl err \<Rightarrow> (c, Inl (ErrStage err))
      | Inr (c', ret) \<Rightarrow>
          (case ret of
             RetBytes d \<Rightarrow> Deconstruct_loop e rest c' d
           | RetString s \<Rightarrow> Deconstruct_loop e rest c' s
           | RetBase m \<Rightarrow> (c', Inr m)
           | RetOther \<Rightarrow> (c', Inl ErrDeconstructUnhandledType)))"

definition Deconstruct :: "env \<Rightarrow> Client \<Rightarrow> bytes \<Rightarrow> Client \<times> (error + Base)" where
  "Deconstruct e c data = Deconstruct_loop e (transformers c) c data"



section \<open>Building a client: \<open>getClient\<close>, \<open>getJWT\<close> and \<open>New\<close>\<close>

definition getClient :: "env \<Rightarrow> string \<Rightarrow> string \<Rightarrow> string \<Rightarrow> string \<Rightarrow> error + RoundTripper" where
  "getClient e protocol proxyURL ja3 parrot =
     (case (if proxyURL \<noteq> []
            then (case url_Parse e proxyURL of
                    Some errProxy \<Rightarrow> Inl (ErrProxyParse errProxy)
                  | None \<Rightarrow> Inr (ProxyURL proxyURL))
            else Inr ProxyFromEnvironment) of
        Inl err \<Rightarrow> Inl err
      | Inr proxy \<Rightarrow>
          if ja3 \<noteq> [] then
            (case utls_NewTransportFromJA3Insecure e ja3 of
               Some err \<Rightarrow> Inl (ErrUTLS err)
             | None \<Rightarrow> Inr (UTLS_JA3 ja3 (if proxyURL \<noteq> [] then Some proxy else None)))
          else if parrot \<noteq> [] then
            (case utls_NewTransportFromParrotInsecure e parrot of
               Some err \<Rightarrow> Inl (ErrUTLS err)
             | None \<Rightarrow> Inr (UTLS_Parrot parrot (if proxyURL \<noteq> [] then Some proxy else None)))
          else
            (let p = strings_ToLower e protocol in
             if p = ''http3'' then Inr HTTP3_Transport
             else if p = ''h2'' then Inr H2_Transport
             else if p = ''h2c'' then Inr H2C_Transport
             else if p = ''https'' then Inr (HTTPS_Transport proxy)
             else if p = ''http'' then Inr (HTTP_Transport proxy)
             else Inl (ErrInvalidProtocol protocol)))"

text \<open>
  \<open>getJWT\<close>: the key is SHA-256 of the PSK; the token carries the agent's identifier and
  the time of the call, and is parsed back before it is returned.
\<close>

definition getJWT :: "env \<Rightarrow> int \<Rightarrow> Client \<Rightarrow> error + string" where
  "getJWT e t c =
     (let key = sha256_Sum256 e (psk c) in
      case jose_NewEncrypter e key of
        Some encErr \<Rightarrow> Inl (ErrJWTEncryptor encErr)
      | None \<Rightarrow>
          (case jose_NewSigner e key of
             Some errSigner \<Rightarrow> Inl (ErrJWTSigner errSigner)
           | None \<Rightarrow>
               (case jwt_CompactSerialize e key (AgentID c) t of
                  Inl err \<Rightarrow> Inl (ErrJWTSerialize err)
                | Inr agentJWT \<Rightarrow>
                    (case jwt_ParseSignedAndEncrypted e agentJWT of
                       Some errParse \<Rightarrow> Inl (ErrJWTParse errParse)
                     | None \<Rightarrow> Inr agentJWT))))"

definition Client_zero :: Client where
  \<comment> \<open>\<open>Client{}\<close>: every field at its zero value\<close>
  "Client_zero =
     \<lparr>Authenticator = None, authenticated = False, httpClient = None, Protocol = [],
      URL = [], Host = [], Proxy = [], JWT = [], Headers = Map.empty, secret = [],
      UserAgent = [], PaddingMax = 0, Parrot = [], JA3 = [], psk = [], AgentID = 0,
      currentURL = 0, transformers = []\<rparr>"

definition opaque_New :: "UUID \<Rightarrow> OpaqueAuthenticator" where
  "opaque_New id' = \<lparr>agent = id', registered = False, authenticated = False, opaque = None\<rparr>"

definition transformer_of :: "string \<Rightarrow> Transformer option" where
  \<comment> \<open>the \<open>switch\<close> over the lower-cased stage name\<close>
  "transformer_of name =
     (if name = ''aes'' then Some AES
      else if name = ''base64-byte'' then Some Base64_BYTE
      else if name = ''base64-string'' then Some Base64_STRING
      else if name = ''gob-base'' then Some Gob_BASE
      else if name = ''gob-string'' then Some Gob_STRING
      else if name = ''hex-byte'' then Some Hex_BYTE
      else if name = ''hex-string'' then Some Hex_STRING
      else if name = ''jwe'' then Some JWE
      else if name = ''rc4'' then Some RC4
      else if name = ''xor'' then Some XOR
      else None)"

fun New_transforms :: "env \<Rightarrow> string list \<Rightarrow> Transformer list \<Rightarrow> error + Transformer list" where
  "New_transforms e [] acc = Inr acc"
| "New_transforms e (transform # rest) acc =
     (case transformer_of (strings_ToLower e transform) of
        None \<Rightarrow> Inl (ErrUnhandledTransform transform)
      | Some t \<Rightarrow> New_transforms e rest (acc @ [t]))"

definition header_separator :: string where
  \<comment> \<open>the two characters backslash and \<open>n\<close>\<close>
  "header_separator = [CHR 0x5C, CHR ''n'']"

text \<open>
  The loop over the header lines: each line is split at \<open>":"\<close> and the pieces \<open>h[0]\<close> and
  \<open>h[1]\<close> are read. \<open>Split\<close> returns at least one piece; reading \<open>h[1]\<close> of a one-piece
  result is an index out of range.
\<close>

fun New_headers :: "string list \<Rightarrow> (string \<rightharpoonup> string) \<Rightarrow> panic + (string \<rightharpoonup> string)" where
  "New_headers [] hs = Inr hs"
| "New_headers (header # rest) hs =
     (let h = Split header '':'' in
      if length h < 2 then Inl IndexOutOfRange
      else
        (let headerKey = TrimSuffix (TrimPrefix (h ! 0) '' '') '' '';
             headerValue = TrimSuffix (TrimPrefix (h ! 1) '' '') '' ''
         in New_headers rest (hs(headerKey \<mapsto> headerValue))))"

text \<open>
  \<open>New\<close> returns a client pointer (nil is \<open>None\<close>) and an error (nil is \<open>None\<close>). The
  registration of the client in the process-wide repository is not modelled.
\<close>

definition New :: "env \<Rightarrow> Config \<Rightarrow> (Client option \<times> error option) go" where
  "New e config =
     (let client0 = Client_zero
            \<lparr>AgentID := Config.AgentID config, URL := Config.URL config,
             UserAgent := Config.UserAgent config, Host := Config.Host config,
             Protocol := Config.Protocol config, Proxy := Config.Proxy config,
             JA3 := Config.JA3 config, Parrot := Config.Parrot config, psk := PSK config\<rparr>;
          a = strings_ToLower e (AuthPackage config)
      in
      case (if a = ''none'' then Some (NoneAuth (Config.AgentID config))
            else if a = ''opaque'' then Some (OpaqueAuth (opaque_New (Config.AgentID config)))
            else None) of
        None \<Rightarrow> Returns (None, Some ErrNoAuthenticator)
      | Some authenticator \<Rightarrow>
          (case New_transforms e (Split (Transformers config) '','') [] of
             Inl err \<Rightarrow> Returns (None, Some err)
           | Inr ts \<Rightarrow>
               (let client1 = client0
                      \<lparr>Authenticator := Some authenticator, transformers := ts,
                       secret := sha256_Sum256 e (PSK config)\<rparr>
                in
                case (if Config.Padding config \<noteq> [] then strconv_Atoi e (Config.Padding config)
                      else (0, None)) of
                  (p, Some err) \<Rightarrow>
                    Returns (Some (client1\<lparr>PaddingMax := p\<rparr>), Some (ErrPaddingAtoi err))
                | (p, None) \<Rightarrow>
                    (case (if Config.Headers config \<noteq> []
                           then New_headers (Split (Config.Headers config) header_separator) Map.empty
                           else Inr (Headers client1)) of
                       Inl pn \<Rightarrow> Panic pn
                     | Inr hs \<Rightarrow>
                         (let client2 = client1\<lparr>PaddingMax := p, Headers := hs\<rparr> in
                          case getClient e (Protocol client2) (Proxy client2) (JA3 client2)
                                 (Parrot client2) of
                            Inl err \<Rightarrow> Returns (Some (client2\<lparr>httpClient := None\<rparr>), Some err)
                          | Inr rt \<Rightarrow> Returns (Some (client2\<lparr>httpClient := Some rt\<rparr>), None))))))"

definition Listen :: "Client \<Rightarrow> Base list \<times> error option" where
  "Listen c = ([], Some ErrListenUnsupported)"

definition Synchronous :: "Client \<Rightarrow> bool" where
  "Synchronous c = False"

section \<open>The OPAQUE authenticator\<close>

text \<open>
  The four steps of the user's side. A step that writes through the \<open>*User\<close> pointer
  returns the user as it is afterwards; reading a field through a nil pointer panics.
\<close>

definition UserRegisterInit ::
  "gopaque \<Rightarrow> world \<Rightarrow> UUID \<Rightarrow> User option \<Rightarrow> Opaque \<times> User option \<times> error option" where
  "UserRegisterInit g w AgentID' user =
     (case (case user of
              Some u \<Rightarrow> Inr u
            | None \<Rightarrow>
                (let x = RandStringBytesMaskImprSrc w 30 in
                 case uuid_MarshalBinary g AgentID' of
                   Inl err \<Rightarrow> Inl (ErrOpaqueMarshalAgentID err)
                 | Inr agentIDBytes \<Rightarrow>
                     Inr \<lparr>reg = NewUserRegister g agentIDBytes, regComplete = None, auth = None,
                          Kex = None, pwdU = pbkdf2_Key g x agentIDBytes 5000 32\<rparr>)) of
        Inl err \<Rightarrow> (Opaque_zero, None, Some err)
      | Inr u \<Rightarrow>
          (let (reg', userRegInit) = UserRegister_Init g (reg u) (pwdU u);
               u' = u\<lparr>reg := reg'\<rparr>
           in
           case UserRegisterInit_ToBytes g userRegInit of
             Inl err \<Rightarrow> (Opaque_zero, Some u', Some (ErrOpaqueMarshal err))
           | Inr userRegInitBytes \<Rightarrow>
               (\<lparr>Opaque.Type = RegInit, Opaque.Payload = userRegInitBytes\<rparr>, Some u', None)))"

definition UserRegisterComplete ::
  "gopaque \<Rightarrow> Opaque \<Rightarrow> User option \<Rightarrow> (Opaque \<times> User option \<times> error option) go" where
  "UserRegisterComplete g regInitResp user =
     (if Opaque.Type regInitResp \<noteq> RegInit
      then Returns (Opaque_zero, user,
             Some (ErrOpaqueUnexpectedType RegInit (Opaque.Type regInitResp)))
      else
        (case user of
           None \<Rightarrow> Panic NilPointerDereference
         | Some u \<Rightarrow>
             (case (case regComplete u of
                      Some rc \<Rightarrow> Inr rc
                    | None \<Rightarrow>
                        (case ServerRegisterInit_FromBytes g (Opaque.Payload regInitResp) of
                           Inl err \<Rightarrow> Inl err
                         | Inr serverRegInit \<Rightarrow>
                             Inr (UserRegister_Complete g (reg u) serverRegInit))) of
                Inl err \<Rightarrow> Returns (Opaque_zero, Some u, Some (ErrOpaqueUnmarshal err))
              | Inr rc \<Rightarrow>
                  (let u' = u\<lparr>regComplete := Some rc\<rparr> in
                   case UserRegisterComplete_ToBytes g rc of
                     Inl err \<Rightarrow> Returns (Opaque_zero, Some u', Some (ErrOpaqueMarshal err))
                   | Inr userRegCompleteBytes \<Rightarrow>
                       Returns (\<lparr>Opaque.Type = RegComplete,
                                 Opaque.Payload = userRegCompleteBytes\<rparr>, Some u', None)))))"

definition UserAuthenticateInit ::
  "gopaque \<Rightarrow> UUID \<Rightarrow> User option \<Rightarrow> (Opaque \<times> User option \<times> error option) go" where
  "UserAuthenticateInit g AgentID' user =
     (case uuid_MarshalBinary g AgentID' of
        Inl err \<Rightarrow> Returns (Opaque_zero, user, Some (ErrOpaqueMarshalAgentID err))
      | Inr agentIDBytes \<Rightarrow>
          (case user of
             None \<Rightarrow> Panic NilPointerDereference
           | Some u \<Rightarrow>
               (let kex = NewKeyExchangeSigma g;
                    ua = NewUserAuth g agentIDBytes kex;
                    u1 = u\<lparr>Kex := Some kex, auth := Some ua\<rparr>
                in
                case UserAuth_Init g ua (pwdU u1) of
                  Inl err \<Rightarrow> Returns (Opaque_zero, Some u1, Some (ErrOpaqueAuthInit err))
                | Inr (ua', userAuthInit) \<Rightarrow>
                    (let u2 = u1\<lparr>auth := Some ua'\<rparr> in
                     case UserAuthInit_ToBytes g userAuthInit of
                       Inl err \<Rightarrow> Returns (Opaque_zero, Some u2, Some (ErrOpaqueMarshal err))
                     | Inr userAuthInitBytes \<Rightarrow>
                         Returns (\<lparr>Opaque.Type = AuthInit,
                                   Opaque.Payload = userAuthInitBytes\<rparr>, Some u2, None)))))"

definition UserAuthenticateComplete ::
  "gopaque \<Rightarrow> Opaque \<Rightarrow> User option \<Rightarrow> (Opaque \<times> User option \<times> error option) go" where
  "UserAuthenticateComplete g authInitResp user =
     (if Opaque.Type authInitResp \<noteq> AuthInit
      then Returns (Opaque_zero, user,
             Some (ErrOpaqueUnexpectedType AuthInit (Opaque.Type authInitResp)))
      else
        (case ServerAuthComplete_FromBytes g (Opaque.Payload authInitResp) of
           Inl err \<Rightarrow> Returns (Opaque_zero, user, Some (ErrOpaqueUnmarshal err))
         | Inr serverComplete \<Rightarrow>
             (case user of
                None \<Rightarrow> Panic NilPointerDereference
              | Some u \<Rightarrow>
                  (case auth u of
                     None \<Rightarrow> Panic NilPointerDereference
                   | Some ua \<Rightarrow>
                       (case UserAuth_Complete g ua serverComplete of
                          Inl err \<Rightarrow>
                            Returns (Opaque_zero, Some u, Some (ErrOpaqueAuthComplete err))
                        | Inr (ua', kex', userAuthComplete) \<Rightarrow>
                            (let u' = u\<lparr>auth := Some ua', Kex := Some kex'\<rparr> in
                             case UserAuthComplete_ToBytes g userAuthComplete of
                               Inl err \<Rightarrow>
                                 Returns (Opaque_zero, Some u', Some (ErrOpaqueMarshal err))
                             | Inr userAuthCompleteBytes \<Rightarrow>
                                 Returns (\<lparr>Opaque.Type = AuthComplete,
                                           Opaque.Payload = userAuthCompleteBytes\<rparr>,
                                          Some u', None)))))))"

text \<open>
  The first part of \<open>Authenticate\<close>: the check for re-register and re-authenticate
  requests. \<open>Returns None\<close> is the early return with an empty message; otherwise the
  authenticator and the incoming message go on as they are after the check.
\<close>

definition opaque_Authenticate_check ::
  "OpaqueAuthenticator \<Rightarrow> Base \<Rightarrow> (OpaqueAuthenticator \<times> Base) option go" where
  "opaque_Authenticate_check a in' =
     (if Type in' = OPAQUE \<and> Payload in' \<noteq> NilPayload then
        (case Payload in' of
           NilPayload \<Rightarrow> Returns (Some (a, in'))
         | OtherPayload x \<Rightarrow> Panic TypeAssertionFailed
         | OpaquePayload p \<Rightarrow>
             if Opaque.Type p = ReRegister then
               (if \<not> registered a then Returns None
                else Returns (Some (a\<lparr>registered := False, opaque := None\<rparr>, in')))
             else if Opaque.Type p = ReAuthenticate then
               Returns (Some (a\<lparr>OpaqueAuthenticator.authenticated := False\<rparr>,
                 in'\<lparr>Payload := OpaquePayload \<lparr>Opaque.Type = RegComplete, Opaque.Payload = []\<rparr>\<rparr>))
             else Returns (Some (a, in')))
      else Returns (Some (a, in')))"

text \<open>The dispatch on the sub-type of the incoming OPAQUE message.\<close>

definition opaque_Authenticate_dispatch ::
  "gopaque \<Rightarrow> world \<Rightarrow> OpaqueAuthenticator \<Rightarrow> Base \<Rightarrow> Opaque \<Rightarrow>
     (OpaqueAuthenticator \<times> Base \<times> bool \<times> error option) go" where
  "opaque_Authenticate_dispatch g w a out opaqueMessage =
     (let ty = Opaque.Type opaqueMessage in
      if ty = RegInit then
        (case UserRegisterComplete g opaqueMessage (opaque a) of
           Panic p \<Rightarrow> Panic p
         | Returns (pl, u, Some err) \<Rightarrow>
             Returns (a\<lparr>opaque := u\<rparr>, out\<lparr>Payload := OpaquePayload pl\<rparr>, False,
                      Some (ErrOpaqueRegComplete err))
         | Returns (pl, u, None) \<Rightarrow>
             Returns (a\<lparr>opaque := u, registered := True\<rparr>, out\<lparr>Payload := OpaquePayload pl\<rparr>,
                      False, None))
      else if ty = RegComplete then
        (case UserAuthenticateInit g (agent a) (opaque a) of
           Panic p \<Rightarrow> Panic p
         | Returns (pl, u, err) \<Rightarrow>
             Returns (a\<lparr>opaque := u\<rparr>, out\<lparr>Payload := OpaquePayload pl\<rparr>, False, err))
      else if ty = AuthInit then
        (case UserAuthenticateComplete g opaqueMessage (opaque a) of
           Panic p \<Rightarrow> Panic p
         | Returns (pl, u, Some err) \<Rightarrow>
             Returns (a\<lparr>opaque := u\<rparr>, out\<lparr>Payload := OpaquePayload pl\<rparr>, False, Some err)
         | Returns (pl, u, None) \<Rightarrow>
             Returns (a\<lparr>opaque := u, OpaqueAuthenticator.authenticated := True\<rparr>,
                      out\<lparr>Payload := OpaquePayload pl\<rparr>, True, None))
      else if ty = ReRegister then
        (case UserRegisterInit g w (agent a) None of
           (pl, u, err) \<Rightarrow>
             Returns (a\<lparr>registered := False, opaque := u\<rparr>,
                      out\<lparr>Payload := OpaquePayload pl\<rparr>, False, err))
      else if ty = ReAuthenticate then
        (case UserAuthenticateInit g (agent a) (opaque a) of
           Panic p \<Rightarrow> Panic p
         | Returns (pl, u, err) \<Rightarrow>
             Returns (a\<lparr>OpaqueAuthenticator.authenticated := False, opaque := u\<rparr>,
                      out\<lparr>Payload := OpaquePayload pl\<rparr>, False, err))
      else Returns (a, out, False, None))"

text \<open>
  \<open>Authenticator.Authenticate\<close>: the authenticator as it is afterwards, the outgoing
  message, the flag \<open>authenticated\<close> and the error.
\<close>

definition opaque_Authenticate ::
  "gopaque \<Rightarrow> world \<Rightarrow> OpaqueAuthenticator \<Rightarrow> Base \<Rightarrow>
     (OpaqueAuthenticator \<times> Base \<times> bool \<times> error option) go" where
  "opaque_Authenticate g w a0 in0 =
     (let out = Base_zero\<lparr>ID := agent a0, Type := OPAQUE\<rparr> in
      case opaque_Authenticate_check a0 in0 of
        Panic p \<Rightarrow> Panic p
      | Returns None \<Rightarrow> Returns (a0, Base_zero, False, None)
      | Returns (Some (a, in')) \<Rightarrow>
          if \<not> registered a \<and> Payload in' = NilPayload then
            (case UserRegisterInit g w (agent a) (opaque a) of
               (pl, u, err) \<Rightarrow>
                 Returns (a\<lparr>opaque := u\<rparr>, out\<lparr>Payload := OpaquePayload pl\<rparr>, False,
                          map_option ErrOpaqueRegInit err))
          else if ID in' \<noteq> agent a then
            Returns (a, Base_zero, False, Some (ErrOpaqueIDMismatch (ID in') (agent a)))
          else if Type in' \<noteq> OPAQUE then
            Returns (a, out, False, Some (ErrOpaqueNotOpaqueType (Type in')))
          else
            (case Payload in' of
               NilPayload \<Rightarrow> Panic TypeAssertionFailed
             | OtherPayload x \<Rightarrow> Panic TypeAssertionFailed
             | OpaquePayload opaqueMessage \<Rightarrow>
                 opaque_Authenticate_dispatch g w a out opaqueMessage))"

definition opaque_Secret :: "gopaque \<Rightarrow> OpaqueAuthenticator \<Rightarrow> (bytes \<times> error option) go" where
  "opaque_Secret g a =
     (if \<not> OpaqueAuthenticator.authenticated a then Returns ([], Some ErrOpaqueNotAuthenticated)
      else
        (case opaque a of
           None \<Rightarrow> Panic NilPointerDereference
         | Some u \<Rightarrow>
             (case Kex u of
                None \<Rightarrow> Panic NilPointerDereference
              | Some kex \<Rightarrow> Returns (SharedSecret_String g kex, None))))"

definition opaque_String :: "OpaqueAuthenticator \<Rightarrow> string" where
  "opaque_String a = ''OPAQUE''"

subsection \<open>The \<open>Authenticator\<close> interface\<close>

definition Authenticator_Authenticate ::
  "env \<Rightarrow> world \<Rightarrow> Authenticator \<Rightarrow> Base \<Rightarrow> (Authenticator \<times> Base \<times> bool \<times> error option) go" where
  "Authenticator_Authenticate e w au msg =
     (case au of
        NoneAuth i \<Rightarrow>
          (case none_Authenticate e i msg of
             (out, done, err) \<Rightarrow> Returns (NoneAuth i, out, done, map_option ErrAuthenticator err))
      | OpaqueAuth a \<Rightarrow>
          (case opaque_Authenticate (lib_gopaque e) w a msg of
             Panic p \<Rightarrow> Panic p
           | Returns (a', out, done, err) \<Rightarrow> Returns (OpaqueAuth a', out, done, err)))"

definition Authenticator_Secret :: "env \<Rightarrow> Authenticator \<Rightarrow> (bytes \<times> error option) go" where
  "Authenticator_Secret e au =
     (case au of
        NoneAuth i \<Rightarrow>
          (case none_Secret e i of
             Inl err \<Rightarrow> Returns ([], Some (ErrAuthenticator err))
           | Inr key \<Rightarrow> Returns (key, None))
      | OpaqueAuth a \<Rightarrow> opaque_Secret (lib_gopaque e) a)"

definition Authenticator_String :: "env \<Rightarrow> Authenticator \<Rightarrow> string" where
  "Authenticator_String e au =
     (case au of NoneAuth i \<Rightarrow> none_String e | OpaqueAuth a \<Rightarrow> opaque_String a)"

section \<open>\<open>Client.Send\<close>\<close>

text \<open>
  \<open>Send\<close> in three parts, in the order of the source: everything up to the call of the
  round-tripper (\<open>Send_issue\<close>), the rotation of the URL (\<open>Send_rotate\<close>), and the
  handling of the transport error or of the response (\<open>Send_error\<close>, \<open>Send_response\<close>).
  The log messages are not modelled, except that the first one reads
  \<open>client.URL[client.currentURL]\<close> and so panics when the index is out of range. The
  request records what \<open>Send\<close> sets on it; the extra headers are kept as the client's map.
\<close>

definition Send_padding :: "world \<Rightarrow> Client \<Rightarrow> Base \<Rightarrow> Base" where
  "Send_padding w c m =
     (if PaddingMax c > 0
      then m\<lparr>Padding := RandStringBytesMaskImprSrc w (nat (Intn (rand_padding w) (PaddingMax c)))\<rparr>
      else m)"

definition Send_request :: "Client \<Rightarrow> bytes \<Rightarrow> request" where
  "Send_request c data =
     \<lparr>req_Method = ''POST'',
      req_URL = URL c ! nat (currentURL c),
      req_Body = data,
      req_UserAgent = UserAgent c,
      req_ContentType = ''application/octet-stream; charset=utf-8'',
      req_Authorization = ''Bearer '' @ JWT c,
      req_Host = Host c,
      req_Headers = Headers c\<rparr>"

datatype issued = EarlyReturn error | Answer "string + response"

definition Send_issue :: "env \<Rightarrow> world \<Rightarrow> Client \<Rightarrow> Base \<Rightarrow> issued go" where
  "Send_issue e w c m =
     (if \<not> (0 \<le> currentURL c \<and> currentURL c < int (length (URL c))) then Panic IndexOutOfRange
      else
        (case Construct e c (Send_padding w c m) of
           Inl err \<Rightarrow> Returns (EarlyReturn (ErrSendConstruct err))
         | Inr data \<Rightarrow>
             (case http_NewRequest e (URL c ! nat (currentURL c)) of
                Some reqErr \<Rightarrow> Returns (EarlyReturn (ErrSendBuildRequest reqErr))
              | None \<Rightarrow>
                  (case httpClient c of
                     None \<Rightarrow> Panic NilPointerDereference
                   | Some rt \<Rightarrow> Returns (Answer (Do w rt (Send_request c data)))))))"

definition Send_rotate :: "env \<Rightarrow> world \<Rightarrow> Authenticator \<Rightarrow> Client \<Rightarrow> Client" where
  "Send_rotate e w au c =
     (if Authenticator_String e au = ''OPAQUE'' \<and> length (secret c) \<noteq> 64 then c
      else if length (URL c) > 1
        then c\<lparr>currentURL := Intn (rand_url w) (int (length (URL c)))\<rparr>
      else c)"

definition Send_error :: "env \<Rightarrow> Client \<Rightarrow> string \<Rightarrow> Client \<times> Base list \<times> error option" where
  "Send_error e c err =
     (let c' =
        (if Protocol c = ''http3'' then
           (let n = (Contains err ''Application error 0x0''
                     \<or> Contains err ''NO_ERROR: Handshake did not complete in time''
                     \<or> Contains err ''NO_ERROR: No recent network activity'')
            in if n then
                 c\<lparr>httpClient :=
                     (case getClient e (Protocol c) [] [] [] of
                        Inl errClient \<Rightarrow> None
                      | Inr rt \<Rightarrow> Some rt)\<rparr>
               else c)
         else c)
      in (c', [], Some (ErrSendPost err)))"

definition isOctet :: "env \<Rightarrow> string \<Rightarrow> bool" where
  \<comment> \<open>the loop that sets the flag \<open>isOctet\<close>\<close>
  "isOctet e contentType =
     fold (\<lambda>v flag. if strings_ToLower e v = ''application/octet-stream'' then True else flag)
       (Split contentType '','') False"

text \<open>What follows the checks of a 200 response: the body is read and deconstructed.\<close>

definition Send_deconstruct :: "env \<Rightarrow> Client \<Rightarrow> response \<Rightarrow> Client \<times> Base list \<times> error option" where
  "Send_deconstruct e c resp =
     (case Body resp of
        Inl err \<Rightarrow> (c, [], Some (ErrReadBody err))
      | Inr data \<Rightarrow>
          (case Deconstruct e c data of
             (c', Inl err) \<Rightarrow> (c', [], Some (ErrSendDeconstruct err))
           | (c', Inr respMessage) \<Rightarrow>
               ((if Token respMessage \<noteq> [] then c'\<lparr>JWT := Token respMessage\<rparr> else c'),
                [respMessage], None)))"

definition Send_response ::
  "env \<Rightarrow> world \<Rightarrow> Client \<Rightarrow> response \<Rightarrow> Client \<times> Base list \<times> error option" where
  "Send_response e w c resp =
     (if StatusCode resp = 200 then
        (if ContentType resp = [] then (c, [], Some ErrNoContentType)
         else if \<not> isOctet e (ContentType resp) then (c, [], Some ErrNotOctetStream)
         else if ContentLength resp = 0 then (c, [], Some ErrNoData)
         else Send_deconstruct e c resp)
      else if StatusCode resp = 401 then
        (case getJWT e (now w) c of
           Inl err \<Rightarrow> (c\<lparr>JWT := []\<rparr>, [], Some err)
         | Inr agentJWT \<Rightarrow> (c\<lparr>JWT := agentJWT\<rparr>, [], None))
      else (c, [], Some (ErrServerStatus (StatusCode resp))))"

definition Send :: "env \<Rightarrow> world \<Rightarrow> Client \<Rightarrow> Base \<Rightarrow> (Client \<times> Base list \<times> error option) go" where
  "Send e w c m =
     (case Send_issue e w c m of
        Panic p \<Rightarrow> Panic p
      | Returns (EarlyReturn err) \<Rightarrow> Returns (c, [], Some err)
      | Returns (Answer result) \<Rightarrow>
          (case Authenticator c of
             None \<Rightarrow> Panic NilPointerDereference
           | Some au \<Rightarrow>
               (let c1 = Send_rotate e w au c in
                case result of
                  Inl err \<Rightarrow> Returns (Send_error e c1 err)
                | Inr resp \<Rightarrow> Returns (Send_response e w c1 resp))))"

section \<open>\<open>Client.Set\<close>\<close>

text \<open>
  \<open>Set\<close> returns the client as it is afterwards and the error. The calls of the model
  are sequential, so the mutex that \<open>Set\<close> holds is not modelled.
\<close>

fun Set_validate :: "env \<Rightarrow> string list \<Rightarrow> error option" where
  "Set_validate e [] = None"
| "Set_validate e (u # us) =
     (case url_Parse e u of
        Some err \<Rightarrow> Some (ErrSetURLParse u err)
      | None \<Rightarrow> Set_validate e us)"

definition quote_cutset :: string where
  \<comment> \<open>the double and the single quotation mark\<close>
  "quote_cutset = [CHR 0x22, CHR 0x27]"

definition Set_transport :: "Client \<Rightarrow> error + RoundTripper \<Rightarrow> Client \<times> error option" where
  \<comment> \<open>\<open>client.Client, err = getClient(...)\<close>\<close>
  "Set_transport c r =
     (case r of Inl err \<Rightarrow> (c\<lparr>httpClient := None\<rparr>, Some err)
              | Inr rt \<Rightarrow> (c\<lparr>httpClient := Some rt\<rparr>, None))"

definition Set :: "env \<Rightarrow> Client \<Rightarrow> string \<Rightarrow> string \<Rightarrow> Client \<times> error option" where
  "Set e c key val =
     (let k = strings_ToLower e key in
      if k = ''addr'' then
        (let urls = Split (ReplaceAll val '' '' []) '','' in
         case Set_validate e urls of
           Some err \<Rightarrow> (c, Some err)
         | None \<Rightarrow>
             (let c1 = c\<lparr>URL := urls\<rparr>
              in Set_transport c1 (getClient e (Protocol c1) (Proxy c1) (JA3 c1) (Parrot c1))))
      else if k = ''ja3'' then
        (let ja3String = Trim val quote_cutset;
             (c1, err) = Set_transport c (getClient e (Protocol c) (Proxy c) ja3String (Parrot c))
         in (c1\<lparr>JA3 := ja3String\<rparr>, err))
      else if k = ''jwt'' then (c\<lparr>JWT := val\<rparr>, None)
      else if k = ''parrot'' then
        (let parrot = Trim val quote_cutset;
             (c1, err) = Set_transport c (getClient e (Protocol c) (Proxy c) (JA3 c) parrot)
         in (c1\<lparr>Parrot := parrot\<rparr>, err))
      else if k = ''paddingmax'' then
        (case strconv_Atoi e val of
           (n, err) \<Rightarrow> (c\<lparr>PaddingMax := n\<rparr>, map_option ErrAtoi err))
      else if k = ''secret'' then (c\<lparr>secret := val\<rparr>, None)
      else (c, Some (ErrUnknownSetting key)))"

section \<open>\<open>Client.Authenticate\<close>\<close>

text \<open>
  The loop of \<open>Authenticate\<close>. Each turn takes one \<open>world\<close> from the list, for the
  authenticator's step and for the \<open>Send\<close> that follows; \<open>None\<close> says that the list ran
  out before the loop returned. The refresh of the peer-to-peer service is not modelled.
\<close>

definition Authenticate_secret ::
  "env \<Rightarrow> Authenticator \<Rightarrow> bool \<Rightarrow> Client \<Rightarrow> (Client \<times> error option) go" where
  "Authenticate_secret e au done c =
     (if done then
        (let c1 = c\<lparr>authenticated := True\<rparr> in
         case Authenticator_Secret e au of
           Panic p \<Rightarrow> Panic p
         | Returns (key, Some err) \<Rightarrow> Returns (c1, Some err)
         | Returns (key, None) \<Rightarrow>
             Returns ((if length key > 0 then c1\<lparr>secret := key\<rparr> else c1), None))
      else Returns (c, None))"

fun Authenticate_loop ::
  "env \<Rightarrow> world list \<Rightarrow> Client \<Rightarrow> Base \<Rightarrow> (Client \<times> error option) go option" where
  "Authenticate_loop e [] c msg = None"
| "Authenticate_loop e (w # ws) c msg =
     (case Authenticator c of
        None \<Rightarrow> Some (Panic NilPointerDereference)
      | Some au \<Rightarrow>
          (case Authenticator_Authenticate e w au msg of
             Panic p \<Rightarrow> Some (Panic p)
           | Returns (au', out, done, err) \<Rightarrow>
               (let c1 = c\<lparr>Authenticator := Some au'\<rparr> in
                if err \<noteq> None then Some (Returns (c1, err))
                else if Type out = UNDEFINED then Some (Returns (c1, None))
                else
                  (case Authenticate_secret e au' done c1 of
                     Panic p \<Rightarrow> Some (Panic p)
                   | Returns (c2, Some err) \<Rightarrow> Some (Returns (c2, Some err))
                   | Returns (c2, None) \<Rightarrow>
                       (case Send e w c2 out of
                          Panic p \<Rightarrow> Some (Panic p)
                        | Returns (c3, msgs, Some err) \<Rightarrow> Some (Returns (c3, Some err))
                        | Returns (c3, msgs, None) \<Rightarrow>
                            if done then Some (Returns (c3, None))
                            else Authenticate_loop e ws c3
                                   (case msgs of [] \<Rightarrow> out | r # rs \<Rightarrow> r))))))"

definition Authenticate ::
  "env \<Rightarrow> world list \<Rightarrow> Client \<Rightarrow> Base \<Rightarrow> (Client \<times> error option) go option" where
  "Authenticate e ws c msg =
     (case ws of
        [] \<Rightarrow> None
      | w # rest \<Rightarrow>
          (let c1 = c\<lparr>authenticated := False, secret := sha256_Sum256 e (psk c)\<rparr> in
           case getJWT e (now w) c1 of
             Inl err \<Rightarrow> Some (Returns (c1\<lparr>JWT := []\<rparr>, Some err))
           | Inr agentJWT \<Rightarrow> Authenticate_loop e ws (c1\<lparr>JWT := agentJWT\<rparr>) msg))"

definition Initial :: "env \<Rightarrow> world list \<Rightarrow> Client \<Rightarrow> (Client \<times> error option) go option" where
  "Initial e ws c = Authenticate e ws c Base_zero"

section \<open>Properties named by the specification\<close>

text \<open>The invariant on the index of the current URL.\<close>

definition currentURL_in_range :: "Client \<Rightarrow> bool" where
  "currentURL_in_range c \<longleftrightarrow> 0 \<le> currentURL c \<and> currentURL c < int (length (URL c))"

text \<open>
  The specification's requirement on the \<open>Content-Type\<close> of a response, in its words: the
  header contains the token \<open>application/octet-stream\<close>, without regard to case; what
  else the header holds, before or after a comma, does not matter.
\<close>

definition contains_octet_token :: "env \<Rightarrow> string \<Rightarrow> bool" where
  "contains_octet_token e contentType \<longleftrightarrow>
     Contains (strings_ToLower e contentType) ''application/octet-stream''"

text \<open>The errors that the specification collects under the kind \<open>BadResponse\<close>.\<close>

definition is_BadResponse :: "error \<Rightarrow> bool" where
  "is_BadResponse err \<longleftrightarrow> err = ErrNoContentType \<or> err = ErrNotOctetStream \<or> err = ErrNoData"

section \<open>A small world for running the model\<close>

text \<open>
  Concrete stand-ins for the parameters of the model, used to run it on examples. The hash
  pads or cuts its input to 32 bytes; \<open>ToLower\<close> lowers the ASCII letters; \<open>Atoi\<close> reads
  an optional minus sign and decimal digits, within the 64-bit integers.
\<close>

definition demo_sha256 :: "bytes \<Rightarrow> bytes" where
  "demo_sha256 s = take 32 (s @ ''################################'')"

definition ascii_lower :: "char \<Rightarrow> char" where
  "ascii_lower ch =
     (case map_of (zip ''ABCDEFGHIJKLMNOPQRSTUVWXYZ'' ''abcdefghijklmnopqrstuvwxyz'') ch of
        Some l \<Rightarrow> l
      | None \<Rightarrow> ch)"

fun digits_value :: "string \<Rightarrow> nat \<Rightarrow> nat option" where
  "digits_value [] acc = Some acc"
| "digits_value (ch # cs) acc =
     (let n = (of_char ch :: nat) in
      if 48 \<le> n \<and> n \<le> 57 then digits_value cs (10 * acc + (n - 48)) else None)"

definition demo_range :: "int \<Rightarrow> int \<times> string option" where
  \<comment> \<open>a value outside the 64-bit integers is cut to the nearest bound, with an error\<close>
  "demo_range n =
     (if n > 9223372036854775807 then (9223372036854775807, Some ''value out of range'')
      else if n < - 9223372036854775808 then (- 9223372036854775808, Some ''value out of range'')
      else (n, None))"

definition demo_Atoi :: "string \<Rightarrow> int \<times> string option" where
  "demo_Atoi s =
     (case s of
        [] \<Rightarrow> (0, Some ''invalid syntax'')
      | ch # cs \<Rightarrow>
          if ch = CHR ''-'' \<and> cs \<noteq> [] then
            (case digits_value cs 0 of
               None \<Rightarrow> (0, Some ''invalid syntax'')
             | Some n \<Rightarrow> demo_range (- int n))
          else
            (case digits_value s 0 of
               None \<Rightarrow> (0, Some ''invalid syntax'')
             | Some n \<Rightarrow> demo_range (int n)))"

definition demo_checkin :: Base where
  "demo_checkin =
     \<lparr>ID = 7, Type = OtherMsgType 1, Payload = NilPayload, Padding = [], Token = []\<rparr>"

text \<open>
  Modelled from the spec: the transform stages (packages under \<open>transformers/\<close>) are not
  among the sources. Two stand-in stages follow the contracts of section 4.1. The stage
  under the name \<open>AES\<close> is keyed and authenticated: it accepts bytes, its output embeds a
  tag that depends on the key, and deconstructing under another key fails. The stage under
  the name \<open>Gob_BASE\<close> is a keyless encoder of messages that knows the check-in message
  (with any padding) and fails to decode anything else. The other names have no stand-in.
\<close>

definition demo_stage_Construct :: "Transformer \<Rightarrow> stage_arg \<Rightarrow> bytes \<Rightarrow> string + bytes" where
  "demo_stage_Construct t v k =
     (case t of
        AES \<Rightarrow>
          (case v of
             FromBytes d \<Rightarrow> Inr (k @ d)
           | FromBase m \<Rightarrow> Inl ''aes: unhandled data type'')
      | Gob_BASE \<Rightarrow>
          (case v of
             FromBase m \<Rightarrow>
               if strip_padding m = demo_checkin then Inr (''checkin:'' @ Padding m)
               else Inl ''gob: unknown message''
           | FromBytes d \<Rightarrow> Inl ''gob: unhandled data type'')
      | _ \<Rightarrow> Inl ''stage not available'')"

definition demo_stage_Deconstruct :: "Transformer \<Rightarrow> bytes \<Rightarrow> bytes \<Rightarrow> string + stage_ret" where
  "demo_stage_Deconstruct t b k =
     (case t of
        AES \<Rightarrow>
          if take (length k) b = k then Inr (RetBytes (drop (length k) b))
          else Inl ''aes: message authentication failed''
      | Gob_BASE \<Rightarrow>
          if take 8 b = ''checkin:'' then Inr (RetBase (demo_checkin\<lparr>Padding := drop 8 b\<rparr>))
          else Inl ''gob: decoding failed''
      | _ \<Rightarrow> Inl ''stage not available'')"

definition demo_gopaque :: gopaque where
  "demo_gopaque =
     \<lparr>uuid_MarshalBinary = (\<lambda>i. Inr ''agent-id''),
      pbkdf2_Key = (\<lambda>pw salt iter n. replicate n (CHR ''p'')),
      NewUserRegister = (\<lambda>i. ''reg''),
      UserRegister_Init = (\<lambda>r pw. (r, ''reg-init'')),
      UserRegisterInit_ToBytes = Inr,
      ServerRegisterInit_FromBytes = Inr,
      UserRegister_Complete = (\<lambda>r s. ''reg-complete''),
      UserRegisterComplete_ToBytes = Inr,
      NewKeyExchangeSigma = ''kex'',
      NewUserAuth = (\<lambda>i k. ''auth''),
      UserAuth_Init = (\<lambda>a pw. Inr (a, ''auth-init'')),
      UserAuthInit_ToBytes = Inr,
      ServerAuthComplete_FromBytes = Inr,
      UserAuth_Complete = (\<lambda>a s. Inr (a, ''ssssssssssssssssssssssssssssssssssssssssssssssssssssssssssssssss'', ''auth-complete'')),
      UserAuthComplete_ToBytes = Inr,
      SharedSecret_String = (\<lambda>k. k)\<rparr>"

definition demo_env :: env where
  "demo_env =
     \<lparr>sha256_Sum256 = demo_sha256,
      strings_ToLower = map ascii_lower,
      strconv_Atoi = demo_Atoi,
      url_Parse = (\<lambda>u. None),
      http_NewRequest = (\<lambda>u. None),
      stage_Construct = demo_stage_Construct,
      stage_Deconstruct = demo_stage_Deconstruct,
      utls_NewTransportFromJA3Insecure = (\<lambda>j. None),
      utls_NewTransportFromParrotInsecure = (\<lambda>p. None),
      jose_NewEncrypter = (\<lambda>k. None),
      jose_NewSigner = (\<lambda>k. None),
      jwt_CompactSerialize = (\<lambda>k i t. Inr (''jwt:'' @ k)),
      jwt_ParseSignedAndEncrypted = (\<lambda>t. None),
      none_Authenticate = (\<lambda>i m. (demo_checkin, True, None)),
      none_Secret = (\<lambda>i. Inr []),
      none_String = ''none'',
      lib_gopaque = demo_gopaque\<rparr>"

definition demo_client :: Client where
  "demo_client =
     \<lparr>Authenticator = Some (NoneAuth 7),
      authenticated = True,
      httpClient = Some (HTTPS_Transport ProxyFromEnvironment),
      Protocol = ''https'',
      URL = [''https://h/a'', ''https://h/b'', ''https://h/c''],
      Host = [],
      Proxy = [],
      JWT = ''server-token'',
      Headers = Map.empty,
      secret = ''KKKKKKKKKKKKKKKKKKKKKKKKKKKKKKKKKKKKKKKKKKKKKKKKKKKKKKKKKKKKKKKK'',
      UserAgent = ''agent'',
      PaddingMax = 0,
      Parrot = [],
      JA3 = [],
      psk = ''test'',
      AgentID = 7,
      currentURL = 0,
      transformers = [AES, Gob_BASE]\<rparr>"

definition demo_world :: "nat \<Rightarrow> string + response \<Rightarrow> world" where
  "demo_world raw answer =
     \<lparr>rand_padding = 0, rand_url = raw,
      RandStringBytesMaskImprSrc = (\<lambda>n. replicate n (CHR ''x'')),
      Do = (\<lambda>rt req. answer), now = 1000\<rparr>"

definition demo_response :: "int \<Rightarrow> string \<Rightarrow> bytes \<Rightarrow> response" where
  "demo_response status ct body =
     \<lparr>StatusCode = status, ContentType = ct, ContentLength = int (length body),
      Body = Inr body\<rparr>"

definition demo_config :: Config where
  "demo_config =
     \<lparr>Config.AgentID = 7, Config.Protocol = ''https'', Config.Host = [],
      Config.Headers = [], Config.URL = [''https://h/a''], Config.Proxy = [],
      Config.UserAgent = ''agent'', Config.Parrot = [], PSK = ''test'', Config.JA3 = [],
      Config.Padding = [], AuthPackage = ''none'', Opaque = [],
      Transformers = ''aes,gob-base''\<rparr>"

definition demo_registering :: OpaqueAuthenticator where
  \<comment> \<open>an authenticator that has sent \<open>RegInit\<close> and not yet completed the registration\<close>
  "demo_registering =
     \<lparr>agent = 7, registered = False, authenticated = False,
      opaque = Some \<lparr>reg = ''reg'', regComplete = None, auth = None, Kex = None,
                     pwdU = ''pppppppppppppppppppppppppppppppp''\<rparr>\<rparr>"

definition demo_ReRegister :: Base where
  "demo_ReRegister =
     \<lparr>ID = 7, Type = OPAQUE,
      Payload = OpaquePayload \<lparr>Opaque.Type = ReRegister, Opaque.Payload = []\<rparr>,
      Padding = [], Token = []\<rparr>"






definition demo_opaque_client :: Client where
  \<comment> \<open>the client in the middle of an OPAQUE registration: its secret is still the 32-byte key\<close>
  "demo_opaque_client =
     demo_client\<lparr>Authenticator := Some (OpaqueAuth demo_registering), authenticated := False,
       secret := demo_sha256 ''test''\<rparr>"

section \<open>Facts about the helper functions\<close>

lemmas demo_defs =
  demo_env_def demo_client_def demo_world_def demo_response_def demo_checkin_def
  demo_stage_Construct_def demo_stage_Deconstruct_def demo_sha256_def strip_padding_def
  demo_opaque_client_def demo_registering_def


lemmas Send_defs =
  Send_def Send_issue_def Send_padding_def Send_request_def Send_rotate_def Send_error_def
  Send_response_def Send_deconstruct_def Construct_def Deconstruct_def Deconstruct_stage_def
  Authenticator_String_def opaque_String_def getJWT_def getClient_def

lemma split_scan_no_sep: "ch \<notin> set s \<Longrightarrow> split_scan [ch] cur s = [cur @ s]"
  by (induction s arbitrary: cur) auto

lemma Split_no_colon: "CHR '':'' \<notin> set s \<Longrightarrow> Split s '':'' = [s]"
  by (simp add: Split_def split_scan_no_sep)

lemma Intn_range: "0 < n \<Longrightarrow> 0 \<le> Intn raw n \<and> Intn raw n < n"
  by (simp add: Intn_def)


lemma getJWT_cong:
  "psk c' = psk c \<Longrightarrow> AgentID c' = AgentID c \<Longrightarrow> getJWT e t c' = getJWT e t c"
  unfolding getJWT_def by metis

subsection \<open>The pipeline\<close>




lemma Deconstruct_stage_cases:
  "Deconstruct_stage e t c data = Inr (c', ret) \<Longrightarrow>
     c' = c \<or> c' = c\<lparr>authenticated := False, secret := sha256_Sum256 e (psk c)\<rparr>"
  by (auto simp: Deconstruct_stage_def Let_def split: sum.splits)

text \<open>\<open>Deconstruct\<close> changes the client in one way only: the fall-back to the PSK key.\<close>

lemma Deconstruct_loop_client:
  "Deconstruct_loop e ts c data = (c', r) \<Longrightarrow>
     c' = c \<or> c' = c\<lparr>authenticated := False, secret := sha256_Sum256 e (psk c)\<rparr>"
proof (induction ts arbitrary: c data)
  case Nil
  then show ?case by simp
next
  case (Cons t ts)
  show ?case
  proof (cases "Deconstruct_stage e t c data")
    case (Inl err)
    with Cons.prems show ?thesis by simp
  next
    case (Inr p)
    obtain c1 ret where p: "p = (c1, ret)" by (cases p)
    from Inr p have c1:
      "c1 = c \<or> c1 = c\<lparr>authenticated := False, secret := sha256_Sum256 e (psk c)\<rparr>"
      by (auto dest: Deconstruct_stage_cases)
    have "c' = c1 \<or> c' = c1\<lparr>authenticated := False, secret := sha256_Sum256 e (psk c1)\<rparr>"
      using Cons.prems Inr p Cons.IH [of c1 _]
      by (cases ret) auto
    with c1 show ?thesis by auto
  qed
qed

lemma Deconstruct_frame:
  assumes "Deconstruct e c data = (c', r)"
  shows "JWT c' = JWT c \<and> currentURL c' = currentURL c \<and> URL c' = URL c"
  using Deconstruct_loop_client [of e "transformers c" c data c' r] assms
  by (auto simp: Deconstruct_def)

subsection \<open>\<open>New\<close>\<close>

lemma New_headers_panics:
  "\<exists>line \<in> set lines. CHR '':'' \<notin> set line \<Longrightarrow> New_headers lines hs = Inl IndexOutOfRange"
proof (induction lines arbitrary: hs)
  case Nil
  then show ?case by simp
next
  case (Cons l ls)
  show ?case
  proof (cases "CHR '':'' \<in> set l")
    case True
    with Cons.prems have "\<exists>line \<in> set ls. CHR '':'' \<notin> set line" by auto
    then show ?thesis using Cons.IH by (simp add: Let_def)
  next
    case False
    then show ?thesis by (simp add: Split_no_colon)
  qed
qed

lemma New_transforms_unknown:
  "\<exists>t \<in> set names. transformer_of (strings_ToLower e t) = None \<Longrightarrow>
     \<exists>t. New_transforms e names acc = Inl (ErrUnhandledTransform t) \<and>
         transformer_of (strings_ToLower e t) = None"
proof (induction names arbitrary: acc)
  case Nil
  then show ?case by simp
next
  case (Cons n ns)
  show ?case
  proof (cases "transformer_of (strings_ToLower e n)")
    case None
    then show ?thesis by auto
  next
    case (Some t)
    with Cons.prems have "\<exists>t \<in> set ns. transformer_of (strings_ToLower e t) = None" by auto
    from Cons.IH [OF this] Some show ?thesis by simp
  qed
qed

subsection \<open>\<open>Send\<close>\<close>

lemma Send_deconstruct_frame:
  assumes "Send_deconstruct e c resp = (c', msgs, err)"
  shows "currentURL c' = currentURL c \<and> URL c' = URL c"
proof (cases "Body resp")
  case (Inl x)
  with assms show ?thesis by (simp add: Send_deconstruct_def)
next
  case (Inr data)
  obtain c1 r where d: "Deconstruct e c data = (c1, r)" by (cases "Deconstruct e c data")
  from Deconstruct_frame [OF d] assms Inr d show ?thesis
    by (cases r) (auto simp: Send_deconstruct_def split: if_splits)
qed

lemma Send_deconstruct_JWT:
  assumes "Send_deconstruct e c resp = (c', [r], err)"
  shows "JWT c' = (if Token r = [] then JWT c else Token r)"
proof (cases "Body resp")
  case (Inl x)
  with assms show ?thesis by (simp add: Send_deconstruct_def)
next
  case (Inr data)
  obtain c1 r1 where d: "Deconstruct e c data = (c1, r1)" by (cases "Deconstruct e c data")
  from Deconstruct_frame [OF d] assms Inr d show ?thesis
    by (cases r1) (auto simp: Send_deconstruct_def split: if_splits)
qed

lemma Send_deconstruct_not_BadResponse:
  "Send_deconstruct e c resp = (c', msgs, Some err) \<Longrightarrow> \<not> is_BadResponse err"
  by (auto simp: Send_deconstruct_def is_BadResponse_def split: sum.splits prod.splits if_splits)

lemma Send_response_frame:
  assumes "Send_response e w c resp = (c', msgs, err)"
  shows "currentURL c' = currentURL c \<and> URL c' = URL c"
  using assms Send_deconstruct_frame [of e c resp c' msgs err]
  by (auto simp: Send_response_def split: if_splits sum.splits)

lemma Send_error_frame:
  assumes "Send_error e c x = (c', msgs, err)"
  shows "currentURL c' = currentURL c \<and> URL c' = URL c \<and> JWT c' = JWT c \<and> msgs = []"
  using assms by (auto simp: Send_error_def Let_def split: if_splits)

lemma Send_rotate_frame:
  "JWT (Send_rotate e w au c) = JWT c \<and> URL (Send_rotate e w au c) = URL c"
  by (simp add: Send_rotate_def)

lemma getJWT_rotate: "getJWT e t (Send_rotate e w au c) = getJWT e t c"
  by (rule getJWT_cong) (simp_all add: Send_rotate_def)

lemma isOctet_fold:
  "fold (\<lambda>v flag. if P v then True else flag) xs b = (b \<or> (\<exists>v \<in> set xs. P v))"
  by (induction xs arbitrary: b) auto

text \<open>
  The flag that the loop of the source computes: some piece of the header between commas
  equals the token once lower-cased.
\<close>

lemma isOctet_pieces:
  "isOctet e ct \<longleftrightarrow>
     (\<exists>v \<in> set (Split ct '',''). strings_ToLower e v = ''application/octet-stream'')"
  by (simp add: isOctet_def isOctet_fold)

lemma Contains_middle: "Contains (pre @ sub @ post) sub"
proof -
  have "take (length sub) (drop (length pre) (pre @ sub @ post)) = sub"
    by simp
  moreover have "length pre \<in> set [0..<Suc (length (pre @ sub @ post))]"
    by simp
  ultimately show ?thesis
    unfolding Contains_def list_ex_iff by blast
qed

text \<open>Once the request is issued, \<open>Send\<close> rotates the URL and then handles the answer.\<close>

lemma Send_after_issue:
  assumes "Send_issue e w c m = Returns (Answer r)" and "Authenticator c = Some au"
  shows "Send e w c m =
           (case r of Inl err \<Rightarrow> Returns (Send_error e (Send_rotate e w au c) err)
                    | Inr resp \<Rightarrow> Returns (Send_response e w (Send_rotate e w au c) resp))"
  using assms by (simp add: Send_def Let_def)


subsection \<open>The re-register request during a registration\<close>

lemma ReRegister_step:
  assumes "\<not> registered a" and "Type msg = OPAQUE" and "Payload msg = OpaquePayload p"
    and "Opaque.Type p = ReRegister"
  shows "opaque_Authenticate g w a msg = Returns (a, Base_zero, False, None)"
proof -
  have "opaque_Authenticate_check a msg = Returns None"
    using assms by (simp add: opaque_Authenticate_check_def)
  then show ?thesis by (simp add: opaque_Authenticate_def)
qed

lemma ReRegister_loop:
  assumes au: "Authenticator c = Some (OpaqueAuth a)" and "\<not> registered a"
    and "Type msg = OPAQUE" and "Payload msg = OpaquePayload p" and "Opaque.Type p = ReRegister"
  shows "Authenticate_loop e (w # ws) c msg = Some (Returns (c, None))"
proof -
  have "Authenticator_Authenticate e w (OpaqueAuth a) msg =
          Returns (OpaqueAuth a, Base_zero, False, None)"
    using ReRegister_step [OF assms(2-5)] by (simp add: Authenticator_Authenticate_def)
  moreover have "c\<lparr>Authenticator := Some (OpaqueAuth a)\<rparr> = c"
    using au by simp
  ultimately show ?thesis
    using au by (simp add: Base_zero_def)
qed

subsection \<open>Runs of the model in the small world\<close>



lemma demo_Send_timeout:
  "Send demo_env (demo_world 5 (Inl ''timeout'')) demo_client demo_checkin =
     Returns (demo_client\<lparr>currentURL := 2\<rparr>, [], Some (ErrSendPost ''timeout''))"
  by (simp add: demo_defs Send_defs Intn_def)

lemma demo_issue_response:
  "Send_issue demo_env (demo_world raw (Inr resp)) demo_client demo_checkin =
     Returns (Answer (Inr resp))"
  by (simp add: demo_defs Send_defs)

lemma demo_Set_addr:
  "Set demo_env (demo_client\<lparr>currentURL := 2\<rparr>) ''addr'' ''https://h/z'' =
     (demo_client\<lparr>currentURL := 2, URL := [''https://h/z'']\<rparr>, None)"
  by (simp add: demo_defs Set_def Set_transport_def ReplaceAll_def Split_def getClient_def
      ascii_lower_def)


subsection \<open>What \<open>New\<close> and \<open>Send\<close> keep\<close>

lemma split_scan_nonempty: "split_scan sep cur s \<noteq> []"
  by (induction sep cur s rule: split_scan.induct) auto

lemma New_transforms_length:
  "New_transforms e names acc = Inr ts \<Longrightarrow> length ts = length acc + length names"
  by (induction names arbitrary: acc) (auto split: option.splits)

text \<open>A client that \<open>New\<close> returns has at least one stage.\<close>

lemma New_transformers_nonempty:
  assumes "New e config = Returns (Some c, err)"
  shows "transformers c \<noteq> []"
proof -
  from assms obtain ts where
    ts: "New_transforms e (Split (Transformers config) '','') [] = Inr ts"
    and c: "transformers c = ts"
    by (auto simp: New_def Let_def split: option.splits sum.splits if_splits prod.splits)
  from New_transforms_length [OF ts] have "length ts = length (Split (Transformers config) '','')"
    by simp
  with c show ?thesis
    by (auto simp: Split_def split_scan_nonempty)
qed

lemma Send_rotate_in_range:
  assumes "currentURL_in_range c"
  shows "currentURL_in_range (Send_rotate e w au c)"
proof -
  from assms have "0 < int (length (URL c))"
    unfolding currentURL_in_range_def by linarith
  from Intn_range [OF this, of "rand_url w"] assms show ?thesis
    by (simp add: Send_rotate_def currentURL_in_range_def)
qed

text \<open>A \<open>Send\<close> that returns keeps the index of the current URL inside the URL list.\<close>

lemma Send_keeps_currentURL_in_range:
  assumes "Send e w c m = Returns (c', msgs, err)"
  shows "currentURL_in_range c' \<and> URL c' = URL c"
proof (cases "Send_issue e w c m")
  case (Panic p)
  with assms show ?thesis by (simp add: Send_def)
next
  case (Returns i)
  then have inr: "currentURL_in_range c"
    by (auto simp: Send_issue_def currentURL_in_range_def split: if_splits)
  show ?thesis
  proof (cases i)
    case (EarlyReturn x)
    with Returns assms inr show ?thesis by (simp add: Send_def)
  next
    case (Answer r)
    with Returns assms obtain au where au: "Authenticator c = Some au"
      by (auto simp: Send_def split: option.splits)
    let ?c1 = "Send_rotate e w au c"
    have r1: "currentURL_in_range ?c1" and u1: "URL ?c1 = URL c"
      using inr by (simp_all add: Send_rotate_in_range Send_rotate_frame)
    from Send_after_issue [OF _ au] Returns Answer assms
    have "(case r of Inl x \<Rightarrow> Send_error e ?c1 x | Inr resp \<Rightarrow> Send_response e w ?c1 resp) =
            (c', msgs, err)"
      by (auto split: sum.splits)
    then have "currentURL c' = currentURL ?c1 \<and> URL c' = URL ?c1"
      using Send_error_frame [of e ?c1 _ c' msgs err] Send_response_frame [of e w ?c1 _ c' msgs err]
      by (cases r) auto
    with r1 u1 show ?thesis by (simp add: currentURL_in_range_def)
  qed
qed

section \<open>The claims\<close>




text \<open>
  Claim C2, as stated: when a stage fails under the client's secret and its retry under
  SHA-256 of the PSK succeeds, deconstruction continues and succeeds. It does not always
  succeed. Here the first stage fails under the session key and succeeds under the PSK
  key, the client is marked unauthenticated and takes the PSK key, and then the second
  stage cannot decode what the first one returned: \<open>Deconstruct\<close> returns an error.
\<close>

theorem Deconstruct_psk_retry_then_failure:
  "stage_Deconstruct demo_env AES (demo_sha256 ''test'' @ ''not a gob stream'')
       (secret demo_client) = Inl ''aes: message authentication failed'' \<and>
   stage_Deconstruct demo_env AES (demo_sha256 ''test'' @ ''not a gob stream'')
       (sha256_Sum256 demo_env (psk demo_client)) = Inr (RetBytes ''not a gob stream'') \<and>
   Deconstruct demo_env demo_client (demo_sha256 ''test'' @ ''not a gob stream'') =
     (demo_client\<lparr>authenticated := False, secret := demo_sha256 ''test''\<rparr>,
      Inl (ErrStage ''gob: decoding failed''))"
  by (simp add: Deconstruct_def Deconstruct_stage_def demo_defs)

text \<open>
  Claim C2, amended. At any turn of \<open>Deconstruct\<close>'s loop (stage \<open>t\<close>, the stages \<open>rest\<close>
  after it, the client \<open>c\<close> and the bytes \<open>data\<close> as they are at that turn): when the
  stage fails under the client's secret and succeeds under SHA-256 of the PSK, the client
  is marked unauthenticated and its secret becomes SHA-256 of the PSK, and this is the
  client that \<open>Deconstruct\<close> leaves behind whatever it returns; the loop goes on with the
  output of the retry and the remaining stages, and succeeds at once when that output is
  a message.
\<close>

theorem Deconstruct_psk_fallback:
  assumes "stage_Deconstruct e t data (secret c) = Inl err"
    and "stage_Deconstruct e t data (sha256_Sum256 e (psk c)) = Inr ret"
  shows "Deconstruct_loop e (t # rest) c data =
           (let c' = c\<lparr>authenticated := False, secret := sha256_Sum256 e (psk c)\<rparr> in
            case ret of
              RetBytes d \<Rightarrow> Deconstruct_loop e rest c' d
            | RetString s \<Rightarrow> Deconstruct_loop e rest c' s
            | RetBase m \<Rightarrow> (c', Inr m)
            | RetOther \<Rightarrow> (c', Inl ErrDeconstructUnhandledType)) \<and>
         fst (Deconstruct_loop e (t # rest) c data) =
           c\<lparr>authenticated := False, secret := sha256_Sum256 e (psk c)\<rparr>"
proof -
  let ?c' = "c\<lparr>authenticated := False, secret := sha256_Sum256 e (psk c)\<rparr>"
  have st: "Deconstruct_stage e t c data = Inr (?c', ret)"
    using assms by (simp add: Deconstruct_stage_def)
  have eq: "Deconstruct_loop e (t # rest) c data =
           (case ret of
              RetBytes d \<Rightarrow> Deconstruct_loop e rest ?c' d
            | RetString s \<Rightarrow> Deconstruct_loop e rest ?c' s
            | RetBase m \<Rightarrow> (?c', Inr m)
            | RetOther \<Rightarrow> (?c', Inl ErrDeconstructUnhandledType))"
    using st by simp
  have keep: "fst (Deconstruct_loop e rest ?c' d) = ?c'" for d
    using Deconstruct_loop_client [of e rest ?c' d]
    by (cases "Deconstruct_loop e rest ?c' d") auto
  have "fst (Deconstruct_loop e (t # rest) c data) = ?c'"
    unfolding eq using keep by (cases ret) simp_all
  with eq show ?thesis by (simp add: Let_def)
qed

theorem Deconstruct_psk_fallback_witness:
  "stage_Deconstruct demo_env AES (demo_sha256 ''test'' @ ''checkin:'') (secret demo_client) =
     Inl ''aes: message authentication failed'' \<and>
   stage_Deconstruct demo_env AES (demo_sha256 ''test'' @ ''checkin:'')
     (sha256_Sum256 demo_env (psk demo_client)) = Inr (RetBytes ''checkin:'') \<and>
   Deconstruct_loop demo_env [AES, Gob_BASE] demo_client (demo_sha256 ''test'' @ ''checkin:'') =
     (demo_client\<lparr>authenticated := False, secret := demo_sha256 ''test''\<rparr>, Inr demo_checkin)"
proof -
  have f: "stage_Deconstruct demo_env AES (demo_sha256 ''test'' @ ''checkin:'')
             (secret demo_client) = Inl ''aes: message authentication failed''"
    by (simp add: demo_defs)
  have r: "stage_Deconstruct demo_env AES (demo_sha256 ''test'' @ ''checkin:'')
             (sha256_Sum256 demo_env (psk demo_client)) = Inr (RetBytes ''checkin:'')"
    by (simp add: demo_defs)
  have "Deconstruct_loop demo_env [Gob_BASE]
          (demo_client\<lparr>authenticated := False, secret := sha256_Sum256 demo_env (psk demo_client)\<rparr>)
          ''checkin:'' =
        (demo_client\<lparr>authenticated := False, secret := demo_sha256 ''test''\<rparr>, Inr demo_checkin)"
    by (simp add: Deconstruct_stage_def demo_defs)
  with Deconstruct_psk_fallback [OF f r, of "[Gob_BASE]"] f r show ?thesis by simp
qed




text \<open>
  Claim C6. Take a \<open>Send\<close> whose request is answered by a response. With status 401,
  when the JOSE library builds the encrypter and the signer for the key SHA-256 of the
  PSK, serialises the token \<open>tok\<close> under that key and parses it back, \<open>Send\<close> stores \<open>tok\<close>
  as the client's JWT and returns no message and no error. With a status other than 200
  and 401, \<open>Send\<close> returns no message and the error that carries the status.
\<close>

theorem Send_status:
  assumes issue: "Send_issue e w c m = Returns (Answer (Inr resp))"
    and au: "Authenticator c = Some au"
  shows "(StatusCode resp = 401 \<and>
          jose_NewEncrypter e (sha256_Sum256 e (psk c)) = None \<and>
          jose_NewSigner e (sha256_Sum256 e (psk c)) = None \<and>
          jwt_CompactSerialize e (sha256_Sum256 e (psk c)) (AgentID c) (now w) = Inr tok \<and>
          jwt_ParseSignedAndEncrypted e tok = None \<longrightarrow>
            Send e w c m = Returns ((Send_rotate e w au c)\<lparr>JWT := tok\<rparr>, [], None)) \<and>
         (StatusCode resp \<noteq> 200 \<and> StatusCode resp \<noteq> 401 \<longrightarrow>
            Send e w c m =
              Returns (Send_rotate e w au c, [], Some (ErrServerStatus (StatusCode resp))))"
proof (intro conjI impI)
  assume a: "StatusCode resp = 401 \<and>
          jose_NewEncrypter e (sha256_Sum256 e (psk c)) = None \<and>
          jose_NewSigner e (sha256_Sum256 e (psk c)) = None \<and>
          jwt_CompactSerialize e (sha256_Sum256 e (psk c)) (AgentID c) (now w) = Inr tok \<and>
          jwt_ParseSignedAndEncrypted e tok = None"
  then have "getJWT e (now w) c = Inr tok"
    by (simp add: getJWT_def)
  with a show "Send e w c m = Returns ((Send_rotate e w au c)\<lparr>JWT := tok\<rparr>, [], None)"
    using Send_after_issue [OF issue au] by (simp add: Send_response_def getJWT_rotate)
next
  assume "StatusCode resp \<noteq> 200 \<and> StatusCode resp \<noteq> 401"
  then show "Send e w c m =
              Returns (Send_rotate e w au c, [], Some (ErrServerStatus (StatusCode resp)))"
    using Send_after_issue [OF issue au] by (simp add: Send_response_def)
qed

theorem Send_status_witness:
  "jwt_CompactSerialize demo_env (sha256_Sum256 demo_env (psk demo_client)) (AgentID demo_client)
     (now (demo_world 4 (Inr (demo_response 401 [] [])))) =
     Inr ''jwt:test############################'' \<and>
   Send demo_env (demo_world 4 (Inr (demo_response 401 [] []))) demo_client demo_checkin =
     Returns (demo_client\<lparr>currentURL := 1, JWT := ''jwt:test############################''\<rparr>,
              [], None) \<and>
   Send demo_env (demo_world 4 (Inr (demo_response 500 [] []))) demo_client demo_checkin =
     Returns (demo_client\<lparr>currentURL := 1\<rparr>, [], Some (ErrServerStatus 500))"
proof -
  let ?w = "\<lambda>s. demo_world 4 (Inr (demo_response s [] []))"
  let ?tok = "''jwt:test############################''"
  have au: "Authenticator demo_client = Some (NoneAuth 7)"
    by (simp add: demo_client_def)
  have rot: "Send_rotate demo_env (demo_world 4 x) (NoneAuth 7) demo_client =
               demo_client\<lparr>currentURL := 1\<rparr>" for x
    by (simp add: Send_rotate_def Authenticator_String_def Intn_def demo_defs)
  have ser: "jwt_CompactSerialize demo_env (sha256_Sum256 demo_env (psk demo_client))
               (AgentID demo_client) (now (?w 401)) = Inr ?tok"
    by (simp add: demo_defs)
  have s401: "StatusCode (demo_response 401 [] []) = 401 \<and>
      jose_NewEncrypter demo_env (sha256_Sum256 demo_env (psk demo_client)) = None \<and>
      jose_NewSigner demo_env (sha256_Sum256 demo_env (psk demo_client)) = None \<and>
      jwt_CompactSerialize demo_env (sha256_Sum256 demo_env (psk demo_client))
        (AgentID demo_client) (now (?w 401)) = Inr ?tok \<and>
      jwt_ParseSignedAndEncrypted demo_env ?tok = None"
    using ser by (simp add: demo_response_def demo_env_def)
  have s500: "StatusCode (demo_response 500 [] []) \<noteq> 200 \<and>
              StatusCode (demo_response 500 [] []) \<noteq> 401"
    by (simp add: demo_response_def)
  from Send_status [OF demo_issue_response [where raw = 4 and resp = "demo_response 401 [] []"] au,
         where tok = ?tok] s401
  have a: "Send demo_env (?w 401) demo_client demo_checkin =
             Returns (demo_client\<lparr>currentURL := 1, JWT := ?tok\<rparr>, [], None)"
    by (simp add: rot)
  from Send_status [OF demo_issue_response [where raw = 4 and resp = "demo_response 500 [] []"] au]
    s500
  have b: "Send demo_env (?w 500) demo_client demo_checkin =
             Returns (demo_client\<lparr>currentURL := 1\<rparr>, [], Some (ErrServerStatus 500))"
    by (simp add: rot demo_response_def)
  from ser a b show ?thesis by simp
qed

text \<open>
  What \<open>Send\<close> does with a response of status 200: three checks, then the body.
\<close>

lemma Send_200_response:
  assumes issue: "Send_issue e w c m = Returns (Answer (Inr resp))"
    and au: "Authenticator c = Some au"
    and ok: "StatusCode resp = 200"
  shows "Send e w c m =
           Returns (let c1 = Send_rotate e w au c in
                    if ContentType resp = [] then (c1, [], Some ErrNoContentType)
                    else if \<not> isOctet e (ContentType resp) then (c1, [], Some ErrNotOctetStream)
                    else if ContentLength resp = 0 then (c1, [], Some ErrNoData)
                    else Send_deconstruct e c1 resp)"
  using Send_after_issue [OF issue au] ok by (simp add: Send_response_def Let_def)

text \<open>
  Claim C7 says that \<open>Send\<close> goes on to deconstruct a response of status 200 whenever
  its \<open>Content-Type\<close> contains the token \<open>application/octet-stream\<close> and its
  \<open>Content-Length\<close> is not 0. The source does not: it splits the header at the commas and
  takes a piece for the token only when the whole piece, blanks included, equals it once
  lower-cased. The header \<open>text/html, application/octet-stream\<close> contains the token, and
  for a response of status 200 with this header \<open>Send\<close> returns no message and the error
  that the response is not an octet stream, whatever the \<open>Content-Length\<close>.
  (\<open>strings.ToLower\<close> leaves the three lower-case strings below as they are.)
\<close>

theorem Send_rejects_token_after_blank:
  assumes issue: "Send_issue e w c m = Returns (Answer (Inr resp))"
    and au: "Authenticator c = Some au"
    and ok: "StatusCode resp = 200"
    and ct: "ContentType resp = ''text/html, application/octet-stream''"
    and l1: "strings_ToLower e ''text/html'' = ''text/html''"
    and l2: "strings_ToLower e '' application/octet-stream'' = '' application/octet-stream''"
    and l3: "strings_ToLower e ''text/html, application/octet-stream'' =
               ''text/html, application/octet-stream''"
  shows "contains_octet_token e (ContentType resp) \<and>
         Send e w c m = Returns (Send_rotate e w au c, [], Some ErrNotOctetStream)"
proof
  have "Contains (''text/html, '' @ ''application/octet-stream'' @ [])
          ''application/octet-stream''"
    by (rule Contains_middle)
  then show "contains_octet_token e (ContentType resp)"
    by (simp add: contains_octet_token_def ct l3)
next
  have "Split (ContentType resp) '','' = [''text/html'', '' application/octet-stream'']"
    by (simp add: ct Split_def)
  then have "\<not> isOctet e (ContentType resp)"
    by (simp add: isOctet_pieces l1 l2)
  then show "Send e w c m = Returns (Send_rotate e w au c, [], Some ErrNotOctetStream)"
    using Send_200_response [OF issue au ok] ct by (simp add: Let_def)
qed

text \<open>
  Runs in the small world: the header of the claim's example is accepted; the header with
  the token after a comma and a blank is rejected, and so is the header with a parameter
  after the token, although both contain the token.
\<close>

theorem Send_rejects_token_after_blank_witness:
  "Send demo_env
     (demo_world 3 (Inr (demo_response 200 ''application/octet-stream, utf-8''
        (secret demo_client @ ''checkin:''))))
     demo_client demo_checkin = Returns (demo_client, [demo_checkin], None) \<and>
   contains_octet_token demo_env ''text/html, application/octet-stream'' \<and>
   Send demo_env
     (demo_world 3 (Inr (demo_response 200 ''text/html, application/octet-stream''
        (secret demo_client @ ''checkin:''))))
     demo_client demo_checkin = Returns (demo_client, [], Some ErrNotOctetStream) \<and>
   contains_octet_token demo_env ''application/octet-stream; charset=utf-8'' \<and>
   Send demo_env
     (demo_world 3 (Inr (demo_response 200 ''application/octet-stream; charset=utf-8''
        (secret demo_client @ ''checkin:''))))
     demo_client demo_checkin = Returns (demo_client, [], Some ErrNotOctetStream)"
proof -
  let ?body = "secret demo_client @ ''checkin:''"
  let ?bad = "demo_response 200 ''text/html, application/octet-stream'' ?body"
  have au: "Authenticator demo_client = Some (NoneAuth 7)"
    by (simp add: demo_client_def)
  have rot: "Send_rotate demo_env (demo_world 3 x) (NoneAuth 7) demo_client = demo_client" for x
    by (simp add: Send_rotate_def Authenticator_String_def Intn_def demo_defs)
  have ok: "StatusCode ?bad = 200"
    and ct: "ContentType ?bad = ''text/html, application/octet-stream''"
    by (simp_all add: demo_response_def)
  have l1: "strings_ToLower demo_env ''text/html'' = ''text/html''"
    and l2: "strings_ToLower demo_env '' application/octet-stream'' =
               '' application/octet-stream''"
    and l3: "strings_ToLower demo_env ''text/html, application/octet-stream'' =
               ''text/html, application/octet-stream''"
    by (simp_all add: demo_env_def ascii_lower_def)
  from Send_rejects_token_after_blank
         [OF demo_issue_response [where raw = 3 and resp = ?bad] au ok ct l1 l2 l3]
  have bad: "contains_octet_token demo_env ''text/html, application/octet-stream'' \<and>
             Send demo_env (demo_world 3 (Inr ?bad)) demo_client demo_checkin =
               Returns (demo_client, [], Some ErrNotOctetStream)"
    by (simp add: rot ct)
  have good: "Send demo_env
     (demo_world 3 (Inr (demo_response 200 ''application/octet-stream, utf-8'' ?body)))
     demo_client demo_checkin = Returns (demo_client, [demo_checkin], None)"
    by (simp add: demo_defs Send_defs Intn_def isOctet_def Split_def ascii_lower_def)
  have lp: "strings_ToLower demo_env ''application/octet-stream; charset=utf-8'' =
              [] @ ''application/octet-stream'' @ ''; charset=utf-8''"
    by (simp add: demo_env_def ascii_lower_def)
  have par: "contains_octet_token demo_env ''application/octet-stream; charset=utf-8''"
    unfolding contains_octet_token_def lp by (rule Contains_middle)
  have parsend: "Send demo_env
     (demo_world 3 (Inr (demo_response 200 ''application/octet-stream; charset=utf-8'' ?body)))
     demo_client demo_checkin = Returns (demo_client, [], Some ErrNotOctetStream)"
    by (simp add: demo_defs Send_defs Intn_def isOctet_def Split_def ascii_lower_def)
  from good bad par parsend show ?thesis by simp
qed

text \<open>
  Claim C10. When \<open>Send\<close> returns a message \<open>r\<close> (this happens only for a response with
  status 200 that deconstructs to \<open>r\<close>), the client's JWT after the call is the JWT before
  the call if the token of \<open>r\<close> is empty, and the token of \<open>r\<close> otherwise.
\<close>

theorem Send_empty_token_keeps_JWT:
  assumes "Send e w c m = Returns (c', [r], err)"
  shows "JWT c' = (if Token r = [] then JWT c else Token r) \<and>
         (\<exists>resp. Send_issue e w c m = Returns (Answer (Inr resp)) \<and> StatusCode resp = 200)"
proof -
  from assms obtain res au where issue: "Send_issue e w c m = Returns (Answer res)"
      and au: "Authenticator c = Some au"
    by (auto simp: Send_def split: go.splits issued.splits option.splits)
  show ?thesis
  proof (cases res)
    case (Inl x)
    with Send_after_issue [OF issue au] assms
      Send_error_frame [of e "Send_rotate e w au c" x c' "[r]" err]
    show ?thesis by simp
  next
    case (Inr resp)
    with Send_after_issue [OF issue au] assms
    have sr: "Send_response e w (Send_rotate e w au c) resp = (c', [r], err)" by simp
    then have ok: "StatusCode resp = 200"
      by (auto simp: Send_response_def split: if_splits sum.splits)
    with sr have "Send_deconstruct e (Send_rotate e w au c) resp = (c', [r], err)"
      by (auto simp: Send_response_def split: if_splits)
    from Send_deconstruct_JWT [OF this] have "JWT c' = (if Token r = [] then JWT c else Token r)"
      by (simp add: Send_rotate_frame)
    with ok issue Inr show ?thesis by simp
  qed
qed

theorem Send_empty_token_keeps_JWT_witness:
  "Send demo_env
     (demo_world 3 (Inr (demo_response 200 ''application/octet-stream''
        (secret demo_client @ ''checkin:''))))
     demo_client demo_checkin = Returns (demo_client, [demo_checkin], None) \<and>
   Token demo_checkin = [] \<and>
   JWT demo_client = (if Token demo_checkin = [] then JWT demo_client else Token demo_checkin)"
proof -
  have run: "Send demo_env
     (demo_world 3 (Inr (demo_response 200 ''application/octet-stream''
        (secret demo_client @ ''checkin:''))))
     demo_client demo_checkin = Returns (demo_client, [demo_checkin], None)"
    by (simp add: demo_defs Send_defs Intn_def isOctet_def Split_def ascii_lower_def)
  from Send_empty_token_keeps_JWT [OF run] run show ?thesis
    by (simp add: demo_checkin_def)
qed


text \<open>
  Claim C8. \<open>New\<close> returns no client and an error for every configuration whose
  \<open>Transformers\<close> string, split at the commas, has a piece that is none of the ten stage
  names once lower-cased: the error names the first such piece, unless the authenticator
  was rejected before. The empty \<open>Transformers\<close> string is such a configuration: it
  splits into one empty piece. (\<open>strings.ToLower\<close> maps the empty string to itself.)
\<close>

theorem New_rejects_unknown_transform:
  "((\<exists>t \<in> set (Split (Transformers config) '','').
        transformer_of (strings_ToLower e t) = None) \<longrightarrow>
      New e config = Returns (None, Some ErrNoAuthenticator) \<or>
      (\<exists>t. New e config = Returns (None, Some (ErrUnhandledTransform t)) \<and>
           transformer_of (strings_ToLower e t) = None)) \<and>
   (Transformers config = [] \<and> strings_ToLower e [] = [] \<longrightarrow>
      New e config = Returns (None, Some ErrNoAuthenticator) \<or>
      New e config = Returns (None, Some (ErrUnhandledTransform [])))"
proof (intro conjI impI)
  assume "\<exists>t \<in> set (Split (Transformers config) '','').
            transformer_of (strings_ToLower e t) = None"
  from New_transforms_unknown [OF this, of "[]"]
  obtain t where
    "New_transforms e (Split (Transformers config) '','') [] = Inl (ErrUnhandledTransform t)"
    and "transformer_of (strings_ToLower e t) = None" by blast
  then show "New e config = Returns (None, Some ErrNoAuthenticator) \<or>
      (\<exists>t. New e config = Returns (None, Some (ErrUnhandledTransform t)) \<and>
           transformer_of (strings_ToLower e t) = None)"
    by (auto simp: New_def Let_def)
next
  assume "Transformers config = [] \<and> strings_ToLower e [] = []"
  then have
    "New_transforms e (Split (Transformers config) '','') [] = Inl (ErrUnhandledTransform [])"
    by (simp add: Split_def transformer_of_def)
  then show "New e config = Returns (None, Some ErrNoAuthenticator) \<or>
      New e config = Returns (None, Some (ErrUnhandledTransform []))"
    by (auto simp: New_def Let_def)
qed

theorem New_rejects_unknown_transform_witness:
  "Split ''AES,Rot13'' '','' = [''AES'', ''Rot13''] \<and>
   transformer_of (strings_ToLower demo_env ''AES'') = Some AES \<and>
   transformer_of (strings_ToLower demo_env ''Rot13'') = None \<and>
   New demo_env (demo_config\<lparr>Transformers := ''AES,Rot13''\<rparr>) =
     Returns (None, Some (ErrUnhandledTransform ''Rot13'')) \<and>
   New demo_env (demo_config\<lparr>Transformers := []\<rparr>) =
     Returns (None, Some (ErrUnhandledTransform []))"
proof -
  have sp: "Split ''AES,Rot13'' '','' = [''AES'', ''Rot13'']"
    by (simp add: Split_def)
  have known: "transformer_of (strings_ToLower demo_env ''AES'') = Some AES"
    by (simp add: transformer_of_def demo_env_def ascii_lower_def)
  have unknown: "transformer_of (strings_ToLower demo_env ''Rot13'') = None"
    by (simp add: transformer_of_def demo_env_def ascii_lower_def)
  have auth1: "New demo_env (demo_config\<lparr>Transformers := ''AES,Rot13''\<rparr>) \<noteq>
                 Returns (None, Some ErrNoAuthenticator)"
    by (simp add: New_def demo_config_def demo_env_def Split_def transformer_of_def
        ascii_lower_def)
  have auth2: "New demo_env (demo_config\<lparr>Transformers := []\<rparr>) \<noteq>
                 Returns (None, Some ErrNoAuthenticator)"
    by (simp add: New_def demo_config_def demo_env_def Split_def transformer_of_def
        ascii_lower_def)
  have a: "\<exists>t \<in> set (Split (Transformers (demo_config\<lparr>Transformers := ''AES,Rot13''\<rparr>)) '','').
             transformer_of (strings_ToLower demo_env t) = None"
    using sp unknown by simp
  from New_rejects_unknown_transform [of "demo_config\<lparr>Transformers := ''AES,Rot13''\<rparr>" demo_env]
    a auth1
  obtain t where t: "New demo_env (demo_config\<lparr>Transformers := ''AES,Rot13''\<rparr>) =
                       Returns (None, Some (ErrUnhandledTransform t))"
    by blast
  have "New demo_env (demo_config\<lparr>Transformers := ''AES,Rot13''\<rparr>) =
          Returns (None, Some (ErrUnhandledTransform ''Rot13''))"
    by (simp add: New_def demo_config_def demo_env_def Split_def transformer_of_def
        ascii_lower_def)
  with t have one: "New demo_env (demo_config\<lparr>Transformers := ''AES,Rot13''\<rparr>) =
               Returns (None, Some (ErrUnhandledTransform ''Rot13''))"
    by simp
  have b: "Transformers (demo_config\<lparr>Transformers := []\<rparr>) = [] \<and>
           strings_ToLower demo_env [] = []"
    by (simp add: demo_env_def)
  from New_rejects_unknown_transform [of "demo_config\<lparr>Transformers := []\<rparr>" demo_env]
    b auth2
  have two: "New demo_env (demo_config\<lparr>Transformers := []\<rparr>) =
               Returns (None, Some (ErrUnhandledTransform []))"
    by blast
  from sp known unknown one two show ?thesis by simp
qed

text \<open>
  Claim C5 says that a header line without a colon is rejected with an error. In the
  source it is not: for a configuration that passes the checks before the headers
  (authenticator, transforms, padding) and whose non-empty \<open>Headers\<close> string has a line
  without a colon, \<open>New\<close> panics with an index out of range, at the read of \<open>h[1]\<close>.
\<close>

theorem New_header_without_colon_panics:
  assumes "strings_ToLower e (AuthPackage config) = ''none'' \<or>
           strings_ToLower e (AuthPackage config) = ''opaque''"
    and "New_transforms e (Split (Transformers config) '','') [] = Inr ts"
    and "Config.Padding config = [] \<or> strconv_Atoi e (Config.Padding config) = (p, None)"
    and "Config.Headers config \<noteq> []"
    and "\<exists>line \<in> set (Split (Config.Headers config) header_separator). CHR '':'' \<notin> set line"
  shows "New e config = Panic IndexOutOfRange"
proof -
  have "New_headers (Split (Config.Headers config) header_separator) Map.empty =
          Inl IndexOutOfRange"
    using assms(5) by (rule New_headers_panics)
  with assms(1-4) show ?thesis
    by (auto simp: New_def Let_def)
qed

theorem New_header_without_colon_panics_witness:
  "Split ''X-Test'' header_separator = [''X-Test''] \<and>
   New demo_env (demo_config\<lparr>Config.Headers := ''X-Test''\<rparr>) = Panic IndexOutOfRange \<and>
   (\<exists>c. New demo_env (demo_config\<lparr>Config.Headers := ''X-Test: 1''\<rparr>) = Returns (Some c, None))"
proof -
  let ?cfg = "demo_config\<lparr>Config.Headers := ''X-Test''\<rparr>"
  have sp: "Split ''X-Test'' header_separator = [''X-Test'']"
    by (simp add: Split_def header_separator_def)
  have a: "strings_ToLower demo_env (AuthPackage ?cfg) = ''none'' \<or>
           strings_ToLower demo_env (AuthPackage ?cfg) = ''opaque''"
    by (simp add: demo_config_def demo_env_def ascii_lower_def)
  have t: "New_transforms demo_env (Split (Transformers ?cfg) '','') [] = Inr [AES, Gob_BASE]"
    by (simp add: demo_config_def demo_env_def ascii_lower_def Split_def transformer_of_def)
  have p: "Config.Padding ?cfg = [] \<or> strconv_Atoi demo_env (Config.Padding ?cfg) = (0, None)"
    by (simp add: demo_config_def)
  have h: "Config.Headers ?cfg \<noteq> []"
    by simp
  have l: "\<exists>line \<in> set (Split (Config.Headers ?cfg) header_separator). CHR '':'' \<notin> set line"
    by (simp add: sp)
  have ok: "\<exists>c. New demo_env (demo_config\<lparr>Config.Headers := ''X-Test: 1''\<rparr>) = Returns (Some c, None)"
    by (simp add: New_def Let_def demo_config_def demo_env_def ascii_lower_def Split_def
        transformer_of_def header_separator_def getClient_def)
  from New_header_without_colon_panics [OF a t p h l] sp ok show ?thesis by simp
qed

text \<open>
  Claim C4 says that every operation keeps the index of the current URL inside the URL
  list. \<open>Set\<close> with the key \<open>addr\<close> does not: when the new URLs parse, it replaces the list
  and leaves the index as it was.
\<close>

theorem Set_addr_keeps_index:
  assumes "strings_ToLower e key = ''addr''"
    and "Set_validate e (Split (ReplaceAll val '' '' []) '','') = None"
  shows "URL (fst (Set e c key val)) = Split (ReplaceAll val '' '' []) '','' \<and>
         currentURL (fst (Set e c key val)) = currentURL c"
  using assms by (simp add: Set_def Set_transport_def Let_def split: sum.splits)

text \<open>
  A run: one \<open>Send\<close> of a client with three URLs rotates to the third URL; \<open>Set\<close> then
  installs a list of one URL; the index is out of range, and the next \<open>Send\<close> panics.
\<close>

theorem Set_addr_keeps_index_witness:
  "currentURL_in_range demo_client \<and>
   Send demo_env (demo_world 5 (Inl ''timeout'')) demo_client demo_checkin =
     Returns (demo_client\<lparr>currentURL := 2\<rparr>, [], Some (ErrSendPost ''timeout'')) \<and>
   currentURL_in_range (demo_client\<lparr>currentURL := 2\<rparr>) \<and>
   Set demo_env (demo_client\<lparr>currentURL := 2\<rparr>) ''addr'' ''https://h/z'' =
     (demo_client\<lparr>currentURL := 2, URL := [''https://h/z'']\<rparr>, None) \<and>
   \<not> currentURL_in_range (fst (Set demo_env (demo_client\<lparr>currentURL := 2\<rparr>) ''addr'' ''https://h/z'')) \<and>
   Send demo_env (demo_world 0 (Inl ''timeout''))
     (fst (Set demo_env (demo_client\<lparr>currentURL := 2\<rparr>) ''addr'' ''https://h/z'')) demo_checkin =
     Panic IndexOutOfRange"
proof -
  let ?c = "demo_client\<lparr>currentURL := 2\<rparr>"
  have k: "strings_ToLower demo_env ''addr'' = ''addr''"
    by (simp add: demo_env_def ascii_lower_def)
  have sp: "Split (ReplaceAll ''https://h/z'' '' '' []) '','' = [''https://h/z'']"
    by (simp add: ReplaceAll_def Split_def)
  have v: "Set_validate demo_env (Split (ReplaceAll ''https://h/z'' '' '' []) '','') = None"
    by (simp add: sp demo_env_def)
  from Set_addr_keeps_index [OF k v, of ?c]
  have after: "URL (fst (Set demo_env ?c ''addr'' ''https://h/z'')) = [''https://h/z''] \<and>
               currentURL (fst (Set demo_env ?c ''addr'' ''https://h/z'')) = 2"
    by (simp add: sp)
  then have broken: "\<not> currentURL_in_range (fst (Set demo_env ?c ''addr'' ''https://h/z''))"
    by (simp add: currentURL_in_range_def)
  then have crash: "Send demo_env (demo_world 0 (Inl ''timeout''))
                      (fst (Set demo_env ?c ''addr'' ''https://h/z'')) demo_checkin =
                    Panic IndexOutOfRange"
    by (simp add: Send_def Send_issue_def currentURL_in_range_def)
  have r0: "currentURL_in_range demo_client"
    by (simp add: currentURL_in_range_def demo_client_def)
  have r2: "currentURL_in_range ?c"
    by (simp add: currentURL_in_range_def demo_client_def)
  from r0 demo_Send_timeout r2 demo_Set_addr broken crash show ?thesis by simp
qed

text \<open>
  Claim C9. When the OPAQUE authenticator is not registered and receives an OPAQUE
  message whose payload is a re-register request, its step returns the empty message, no
  error and the flag false, and the authenticator is as it was. The loop of
  \<open>Client.Authenticate\<close> then returns at once, without an error and without sending
  anything, with the client as it was; so does \<open>Authenticate\<close> itself, after it has reset
  the secret and the flag and stored a fresh JWT.
\<close>

theorem ReRegister_in_flight_is_noop:
  assumes au: "Authenticator c = Some (OpaqueAuth a)" and reg: "\<not> registered a"
    and ty: "Type msg = OPAQUE" and pl: "Payload msg = OpaquePayload p"
    and rr: "Opaque.Type p = ReRegister"
  shows "opaque_Authenticate g w a msg = Returns (a, Base_zero, False, None) \<and>
         Authenticate_loop e (w # ws) c msg = Some (Returns (c, None)) \<and>
         (getJWT e (now w) c = Inr tok \<longrightarrow>
            Authenticate e (w # ws) c msg =
              Some (Returns (c\<lparr>authenticated := False, secret := sha256_Sum256 e (psk c),
                               JWT := tok\<rparr>, None)))"
proof (intro conjI impI)
  show "opaque_Authenticate g w a msg = Returns (a, Base_zero, False, None)"
    using reg ty pl rr by (rule ReRegister_step)
  show "Authenticate_loop e (w # ws) c msg = Some (Returns (c, None))"
    using au reg ty pl rr by (rule ReRegister_loop)
next
  assume j: "getJWT e (now w) c = Inr tok"
  let ?c1 = "c\<lparr>authenticated := False, secret := sha256_Sum256 e (psk c)\<rparr>"
  have "getJWT e (now w) ?c1 = Inr tok"
    using j getJWT_cong [of ?c1 c e "now w"] by simp
  moreover have "Authenticate_loop e (w # ws) (?c1\<lparr>JWT := tok\<rparr>) msg =
                   Some (Returns (?c1\<lparr>JWT := tok\<rparr>, None))"
    using au reg ty pl rr by (intro ReRegister_loop [where a = a and p = p]) simp_all
  ultimately show "Authenticate e (w # ws) c msg =
              Some (Returns (c\<lparr>authenticated := False, secret := sha256_Sum256 e (psk c),
                               JWT := tok\<rparr>, None))"
    by (simp add: Authenticate_def)
qed

theorem ReRegister_in_flight_is_noop_witness:
  "\<not> registered demo_registering \<and>
   opaque_Authenticate demo_gopaque (demo_world 0 (Inl ''unused'')) demo_registering
     demo_ReRegister = Returns (demo_registering, Base_zero, False, None) \<and>
   Authenticate_loop demo_env [demo_world 0 (Inl ''unused'')] demo_opaque_client demo_ReRegister =
     Some (Returns (demo_opaque_client, None)) \<and>
   Authenticate demo_env [demo_world 0 (Inl ''unused'')] demo_opaque_client demo_ReRegister =
     Some (Returns (demo_opaque_client\<lparr>JWT := ''jwt:test############################''\<rparr>, None))"
proof -
  let ?w = "demo_world 0 (Inl ''unused'')"
  have au: "Authenticator demo_opaque_client = Some (OpaqueAuth demo_registering)"
    by (simp add: demo_opaque_client_def)
  have reg: "\<not> registered demo_registering"
    by (simp add: demo_registering_def)
  have ty: "Type demo_ReRegister = OPAQUE"
    by (simp add: demo_ReRegister_def)
  have pl: "Payload demo_ReRegister =
              OpaquePayload \<lparr>Opaque.Type = ReRegister, Opaque.Payload = []\<rparr>"
    by (simp add: demo_ReRegister_def)
  have rr: "Opaque.Type \<lparr>Opaque.Type = ReRegister, Opaque.Payload = []\<rparr> = ReRegister"
    by simp
  have jwt: "getJWT demo_env (now ?w) demo_opaque_client = Inr ''jwt:test############################''"
    by (simp add: getJWT_def demo_defs)
  have same: "demo_opaque_client\<lparr>authenticated := False,
                 secret := sha256_Sum256 demo_env (psk demo_opaque_client),
                 JWT := ''jwt:test############################''\<rparr> =
              demo_opaque_client\<lparr>JWT := ''jwt:test############################''\<rparr>"
    by (simp add: demo_defs)
  from ReRegister_in_flight_is_noop [OF au reg ty pl rr, of demo_gopaque ?w demo_env "[]"
         "''jwt:test############################''"] jwt reg same
  show ?thesis by simp
qed

end
